theory Spec2Isabelle
  imports Complex_Main "HOL-Library.AList"
begin

section \<open>Exceptions\<close>

text \<open>
  Every \<^verbatim>\<open>raise\<close> of the Python sources is a value of type \<open>error\<close>: the exception
  class applied to its message. A message that the source builds with an f-string is kept
  as the constructor of the fixed text together with the interpolated values, so that two
  messages are equal exactly when the fixed text and the interpolated values are.

  \<^item> \<open>NoDefaultStrategy\<close>: \<^verbatim>\<open>"No default strategy set and no strategy name provided"\<close>
  \<^item> \<open>StrategyNotFound name names\<close>:
    \<^verbatim>\<open>f"Strategy '{name}' not found. Available: {self.list_all()}"\<close>
  \<^item> \<open>NoFeaturesFound store\<close>: \<^verbatim>\<open>f"No features found for store {store_id}"\<close>
  \<^item> \<open>NoModelsLoaded\<close>: \<^verbatim>\<open>f"No models loaded from {model_dir}"\<close>
  \<^item> \<open>MissingFeature col\<close>: \<^verbatim>\<open>f"Missing feature: {col}"\<close>
  \<^item> \<open>ConfigFileMissing\<close>: the \<^verbatim>\<open>FileNotFoundError\<close> of \<^verbatim>\<open>open(config_path, 'r')\<close>
  \<^item> \<open>ModelFileMissing\<close>: \<^verbatim>\<open>f"Model file not found: {model_path}"\<close>
  \<^item> \<open>DnnJsonMissing\<close>: \<^verbatim>\<open>f"DNN JSON file not found: {json_path}"\<close>
  \<^item> \<open>DnnWeightsMissing\<close>: \<^verbatim>\<open>f"DNN weights file not found: {weights_path}"\<close>
  \<^item> \<open>KerasImportFailed\<close>: \<^verbatim>\<open>"TensorFlow/Keras could not be imported. ..."\<close>
  \<^item> \<open>KerasPreviouslyFailed\<close>:
    \<^verbatim>\<open>"TensorFlow/Keras previously failed to import; DNN strategy is unavailable."\<close>

  The remaining exceptions are raised by the interpreter and the libraries, not by a
  \<^verbatim>\<open>raise\<close> of the sources: \<open>TimeDataMismatch text format\<close> is the \<^verbatim>\<open>ValueError\<close> of
  \<^verbatim>\<open>strptime\<close>, \<open>UnparseableDate text\<close> that of \<^verbatim>\<open>pd.to_datetime\<close>, \<open>NotAFloat text\<close>
  that of \<^verbatim>\<open>float\<close> on a string; \<open>KeyError\<close> is a missing column, \<open>TypeError\<close> a
  \<^verbatim>\<open>None\<close> that is subscripted, iterated, called or converted, \<open>AttributeError\<close> a method
  called on \<^verbatim>\<open>None\<close>, \<open>ImportError\<close> a module that does not import, each with the name
  concerned.
\<close>

datatype message =
    NoDefaultStrategy
  | StrategyNotFound string "string list"
  | NoFeaturesFound int
  | NoModelsLoaded
  | MissingFeature string
  | ConfigFileMissing
  | DnnJsonMissing
  | DnnWeightsMissing
  | KerasImportFailed
  | KerasPreviouslyFailed
  | TimeDataMismatch string string
  | UnparseableDate string
  | NotAFloat string
  | ModelFileMissing

datatype error =
    ValueError message
  | FileNotFoundError message
  | RuntimeError message
  | KeyError string
  | TypeError string
  | AttributeError string
  | ImportError string


section \<open>Strategy registry (\<^verbatim>\<open>api/core/registry.py\<close>)\<close>

text \<open>
  \<^verbatim>\<open>BaseStrategy.__init__\<close> gives every strategy the flag \<^verbatim>\<open>_loaded = False\<close>; the
  concrete strategies extend this record with their own fields.
\<close>

record BaseStrategy =
  loaded :: bool

definition is_loaded :: "'a BaseStrategy_scheme \<Rightarrow> bool" where
  "is_loaded s = loaded s"

text \<open>
  \<^verbatim>\<open>self._strategies\<close> is a Python dict: it keeps insertion order, and an assignment to
  a key that is already there keeps the key's position. That is an association list under
  \<open>AList.update\<close>. \<^verbatim>\<open>self._default_name\<close> is \<^verbatim>\<open>Optional[str]\<close>.
\<close>

record 'a StrategyRegistry =
  strategies :: "(string \<times> 'a) list"
  default_name :: "string option"

definition registry_init :: "'a StrategyRegistry" where
  "registry_init = \<lparr>strategies = [], default_name = None\<rparr>"

definition register :: "string \<Rightarrow> 'a \<Rightarrow> 'a StrategyRegistry \<Rightarrow> 'a StrategyRegistry" where
  "register name strategy r = r\<lparr>strategies := AList.update name strategy (strategies r)\<rparr>"

text \<open>\<^verbatim>\<open>list_all\<close>: \<^verbatim>\<open>list(self._strategies.keys())\<close>.\<close>

definition list_all_names :: "'a StrategyRegistry \<Rightarrow> string list" where
  "list_all_names r = map fst (strategies r)"

text \<open>
  \<^verbatim>\<open>get\<close> reads \<^verbatim>\<open>self\<close> only: it assigns no attribute and calls no method of the
  strategy, so its result is a value and the registry it was called on is the registry
  afterwards.
\<close>

definition get :: "string option \<Rightarrow> 'a StrategyRegistry \<Rightarrow> error + 'a" where
  "get name r =
     (let name = (case name of None \<Rightarrow> default_name r | Some n \<Rightarrow> Some n) in
      case name of
        None \<Rightarrow> Inl (ValueError NoDefaultStrategy)
      | Some n \<Rightarrow>
          (case map_of (strategies r) n of
             None \<Rightarrow> Inl (ValueError (StrategyNotFound n (list_all_names r)))
           | Some s \<Rightarrow> Inr s))"

definition set_default :: "string \<Rightarrow> 'a StrategyRegistry \<Rightarrow> error + 'a StrategyRegistry" where
  "set_default name r =
     (case map_of (strategies r) name of
        None \<Rightarrow> Inl (ValueError (StrategyNotFound name (list_all_names r)))
      | Some _ \<Rightarrow> Inr (r\<lparr>default_name := Some name\<rparr>))"

definition get_default_name :: "'a StrategyRegistry \<Rightarrow> string option" where
  "get_default_name r = default_name r"

text \<open>
  The calls a client can make on a registry, and the registry each call leaves behind.
  A call that raises leaves the registry as it was, since \<^verbatim>\<open>set_default\<close> raises before
  its assignment; \<^verbatim>\<open>get\<close>, \<^verbatim>\<open>list_all\<close> and \<^verbatim>\<open>get_default_name\<close> only read.
\<close>

datatype 'a registry_call =
    Register string 'a
  | SetDefault string
  | Get "string option"
  | ListAll
  | GetDefaultName

fun registry_step :: "'a StrategyRegistry \<Rightarrow> 'a registry_call \<Rightarrow> 'a StrategyRegistry" where
  "registry_step r (Register name strategy) = register name strategy r"
| "registry_step r (SetDefault name) =
     (case set_default name r of Inl _ \<Rightarrow> r | Inr r' \<Rightarrow> r')"
| "registry_step r (Get name) = r"
| "registry_step r ListAll = r"
| "registry_step r GetDefaultName = r"

definition registry_run :: "'a registry_call list \<Rightarrow> 'a StrategyRegistry" where
  "registry_run calls = foldl registry_step registry_init calls"

text \<open>The invariant of the registry: a default name that is set is a registered name.\<close>

definition registry_inv :: "'a StrategyRegistry \<Rightarrow> bool" where
  "registry_inv r =
     (case default_name r of None \<Rightarrow> True | Some d \<Rightarrow> d \<in> set (list_all_names r))"

text \<open>
  The price registry as \<^verbatim>\<open>api/strategies/price/registry.py\<close> builds it, with an unloaded
  strategy under \<^verbatim>\<open>"linear"\<close>, and the same registry before \<^verbatim>\<open>set_default\<close>.
\<close>

definition price_registry_undefaulted :: "BaseStrategy StrategyRegistry" where
  "price_registry_undefaulted = register ''linear'' \<lparr>loaded = False\<rparr> registry_init"

definition price_registry :: "BaseStrategy StrategyRegistry" where
  "price_registry = registry_step price_registry_undefaulted (SetDefault ''linear'')"


section \<open>Python values\<close>

text \<open>
  The numbers a feature dictionary holds are Python \<^verbatim>\<open>int\<close>s and \<^verbatim>\<open>float\<close>s; floats are
  modelled as reals (no rounding, no NaN, no infinities). A key of an encoding table is a
  string or a number; Python compares and hashes \<^verbatim>\<open>1\<close> and \<^verbatim>\<open>1.0\<close> as the same key, so a
  numeric key is its value.
\<close>

datatype pyval = PyInt int | PyFloat real

datatype pykey = KStr string | KNum real

text \<open>\<^verbatim>\<open>str\<close> of an \<^verbatim>\<open>int\<close>: the decimal digits, with a minus sign when negative.\<close>

definition digit_char :: "nat \<Rightarrow> char" where
  "digit_char d = ''0123456789'' ! d"

function str_nat :: "nat \<Rightarrow> string" where
  "str_nat n = (if n < 10 then [digit_char n] else str_nat (n div 10) @ [digit_char (n mod 10)])"
  by pat_completeness auto
termination
  by (relation "measure id") auto

declare str_nat.simps [simp del]

definition str_int :: "int \<Rightarrow> string" where
  "str_int i = (if i < 0 then CHR ''-'' # str_nat (nat (- i)) else str_nat (nat i))"

text \<open>
  A \<^verbatim>\<open>datetime\<close> object, as the attributes and methods the sources read from it:
  \<^verbatim>\<open>.year\<close>, \<^verbatim>\<open>.month\<close>, \<^verbatim>\<open>.day\<close>, \<^verbatim>\<open>.weekday()\<close>, \<^verbatim>\<open>.isocalendar().week\<close>, and its
  position on the time line in seconds, so that \<^verbatim>\<open>(a - b).total_seconds()\<close> is the
  difference of two timestamps.
\<close>

record datetime =
  year :: int
  month :: int
  day :: int
  weekday :: int
  isoweek :: int
  timestamp :: int

text \<open>
  The functions of Python's standard library that the sources call and that are not code
  of this repository are parameters of the model: \<^verbatim>\<open>datetime.strptime(text, format)\<close>
  (\<open>None\<close> when it raises \<^verbatim>\<open>ValueError\<close>), \<^verbatim>\<open>d + timedelta(days=n)\<close>, \<^verbatim>\<open>str\<close> of a
  \<^verbatim>\<open>float\<close>, \<^verbatim>\<open>float\<close> of a string (\<open>None\<close> when the string is not a number), and
  \<^verbatim>\<open>pd.to_datetime(text)\<close> (\<open>None\<close> when it raises).
\<close>

record python_lib =
  strptime :: "string \<Rightarrow> string \<Rightarrow> datetime option"
  add_days :: "datetime \<Rightarrow> int \<Rightarrow> datetime"
  float_str :: "real \<Rightarrow> string"
  float_of_str :: "string \<Rightarrow> real option"
  to_datetime :: "string \<Rightarrow> datetime option"

fun py_str :: "python_lib \<Rightarrow> pyval \<Rightarrow> string" where
  "py_str lib (PyInt i) = str_int i"
| "py_str lib (PyFloat x) = float_str lib x"

fun as_key :: "pyval \<Rightarrow> pykey" where
  "as_key (PyInt i) = KNum (of_int i)"
| "as_key (PyFloat x) = KNum x"

fun py_float :: "pyval \<Rightarrow> real" where
  "py_float (PyInt i) = of_int i"
| "py_float (PyFloat x) = x"


section \<open>Demand feature encoder (\<^verbatim>\<open>api/services/preprocessing_service.py\<close>)\<close>

text \<open>
  \<^verbatim>\<open>self._demand_encoders\<close>, as \<^verbatim>\<open>_load_demand_config_and_encoders\<close> builds it, and the
  fields of \<^verbatim>\<open>config.json\<close> that the sources read (\<^verbatim>\<open>time_features\<close> is read with
  \<^verbatim>\<open>.get('time_features', [])\<close>, so it may be absent). The encoding tables are Python
  dicts from keys to numbers that \<^verbatim>\<open>float\<close> accepts.
\<close>

record demand_encoders =
  store_encoding_dict :: "pykey \<rightharpoonup> real"
  sku_encoding_dict :: "pykey \<rightharpoonup> real"
  time_encoding_dicts :: "string \<rightharpoonup> (pykey \<rightharpoonup> real)"
  global_mean :: real
  m_store :: real
  m_sku :: real
  m_time :: real

record demand_config =
  base_date :: string
  time_features :: "string list option"
  feature_columns :: "string list"
  categorical_columns :: "string list"

text \<open>\<^verbatim>\<open>_encode_store\<close> and \<^verbatim>\<open>_encode_sku\<close>.\<close>

definition encode_store :: "demand_encoders \<Rightarrow> int \<Rightarrow> real" where
  "encode_store enc store_id =
     (let store_dict = store_encoding_dict enc;
          store_id_key = (if store_dict (KStr (str_int store_id)) \<noteq> None
                          then KStr (str_int store_id) else KNum (of_int store_id))
      in case store_dict store_id_key of
           Some v \<Rightarrow> v
         | None \<Rightarrow> global_mean enc)"

definition encode_sku :: "demand_encoders \<Rightarrow> int \<Rightarrow> real" where
  "encode_sku enc sku_id =
     (let sku_dict = sku_encoding_dict enc;
          sku_id_key = (if sku_dict (KStr (str_int sku_id)) \<noteq> None
                        then KStr (str_int sku_id) else KNum (of_int sku_id))
      in case sku_dict sku_id_key of
           Some v \<Rightarrow> v
         | None \<Rightarrow> global_mean enc)"

text \<open>
  \<^verbatim>\<open>_encode_time_features\<close>: the loop over the configured names is a left fold that
  carries the dictionary \<^verbatim>\<open>encoded\<close>.
\<close>

definition time_feature_names :: "demand_config \<Rightarrow> string list" where
  "time_feature_names cfg = (case time_features cfg of None \<Rightarrow> [] | Some ns \<Rightarrow> ns)"

definition encode_time_features ::
  "python_lib \<Rightarrow> demand_encoders \<Rightarrow> demand_config \<Rightarrow> (string \<rightharpoonup> pyval) \<Rightarrow> (string \<rightharpoonup> real)" where
  "encode_time_features lib enc cfg features =
     (let time_dicts = time_encoding_dicts enc
      in foldl (\<lambda>encoded feat_name.
           case features feat_name of
             None \<Rightarrow> encoded
           | Some value \<Rightarrow>
               (case time_dicts feat_name of
                  Some feat_dict \<Rightarrow>
                    (let value_key = (if feat_dict (KStr (py_str lib value)) \<noteq> None
                                      then KStr (py_str lib value) else as_key value)
                     in case feat_dict value_key of
                          Some v \<Rightarrow> encoded(feat_name \<mapsto> v)
                        | None \<Rightarrow> encoded(feat_name \<mapsto> global_mean enc))
                | None \<Rightarrow> encoded(feat_name \<mapsto> py_float value)))
         Map.empty (time_feature_names cfg))"



text \<open>
  The three lookups of the encoder have one shape: the string form of the key, then the
  native key, then the global mean. \<open>lookup_or_mean\<close> names that shape for the proofs.
\<close>

definition lookup_or_mean :: "real \<Rightarrow> (pykey \<rightharpoonup> real) \<Rightarrow> string \<Rightarrow> pykey \<Rightarrow> real" where
  "lookup_or_mean gm d s k =
     (case d (KStr s) of Some v \<Rightarrow> v
      | None \<Rightarrow> (case d k of Some v \<Rightarrow> v | None \<Rightarrow> gm))"

text \<open>
  An example environment: a library that knows the week label \<^verbatim>\<open>17/01/11\<close> (Monday
  2011-01-17, ISO week 3), its week end and three Fridays of 2012, encoding tables in which
  some keys are stored under both forms, and a configuration with two time features.
\<close>

definition date_2012_10_26 :: datetime where
  "date_2012_10_26 = \<lparr>year = 2012, month = 10, day = 26, weekday = 4, isoweek = 43,
                       timestamp = 1351209600\<rparr>"

definition date_2012_11_02 :: datetime where
  "date_2012_11_02 = \<lparr>year = 2012, month = 11, day = 2, weekday = 4, isoweek = 44,
                       timestamp = 1351814400\<rparr>"

definition date_2012_11_09 :: datetime where
  "date_2012_11_09 = \<lparr>year = 2012, month = 11, day = 9, weekday = 4, isoweek = 45,
                       timestamp = 1352419200\<rparr>"

definition demo_lib :: python_lib where
  "demo_lib = \<lparr>
     strptime = (\<lambda>text fmt.
       if (text = ''17/01/11'' \<and> fmt = ''%d/%m/%y'') \<or> (text = ''2011-01-17'' \<and> fmt = ''%Y-%m-%d'')
       then Some \<lparr>year = 2011, month = 1, day = 17, weekday = 0, isoweek = 3,
                  timestamp = 1295222400\<rparr>
       else None),
     add_days = (\<lambda>d n.
       if timestamp d = 1295222400 \<and> n = 6
       then \<lparr>year = 2011, month = 1, day = 23, weekday = 6, isoweek = 3,
             timestamp = 1295740800\<rparr>
       else d\<lparr>timestamp := timestamp d + 86400 * n\<rparr>),
     float_str = (\<lambda>x. if x = 0 then ''0.0'' else ''1.0''),
     float_of_str = (\<lambda>t. if t = ''0.0'' then Some 0 else if t = ''1.0'' then Some 1 else None),
     to_datetime = (\<lambda>text.
       if text = ''2012-10-26'' then Some date_2012_10_26
       else if text = ''2012-11-02'' then Some date_2012_11_02
       else if text = ''2012-11-09'' then Some date_2012_11_09
       else None)\<rparr>"

definition demo_encoders :: demand_encoders where
  "demo_encoders = \<lparr>
     store_encoding_dict = [KStr ''8091'' \<mapsto> 35, KNum 8091 \<mapsto> 99, KNum 8095 \<mapsto> 42],
     sku_encoding_dict = [KStr ''216418'' \<mapsto> 20, KNum 216418 \<mapsto> 21, KNum 216419 \<mapsto> 22],
     time_encoding_dicts =
       [''month'' \<mapsto> [KStr ''1'' \<mapsto> 15, KNum 1 \<mapsto> 16, KNum 2 \<mapsto> 17]],
     global_mean = 30, m_store = 10, m_sku = 10, m_time = 5\<rparr>"

definition demo_config :: demand_config where
  "demo_config = \<lparr>base_date = ''2011-01-17'', time_features = Some [''month'', ''weekday''],
     feature_columns = [''base_price'', ''store_id''], categorical_columns = [''store_id'']\<rparr>"

definition demo_features :: "int \<Rightarrow> string \<rightharpoonup> pyval" where
  "demo_features m = [''month'' \<mapsto> PyInt m, ''weekday'' \<mapsto> PyInt 0]"


section \<open>Data service (\<^verbatim>\<open>api/services/data_service.py\<close>)\<close>

text \<open>
  A pandas \<^verbatim>\<open>DataFrame\<close> read from a CSV file is the list of its rows, in file order, with
  the default index \<^verbatim>\<open>0, 1, 2, ...\<close>. A cell that \<^verbatim>\<open>pd.notna\<close> rejects is \<open>None\<close>.
  Of \<^verbatim>\<open>train.csv\<close> the sources read the columns \<^verbatim>\<open>Store\<close>, \<^verbatim>\<open>Dept\<close> and
  \<^verbatim>\<open>Weekly_Sales\<close>; the sales are taken to be present in every row. The \<^verbatim>\<open>Date\<close> column
  of \<^verbatim>\<open>features.csv\<close> has been converted by \<^verbatim>\<open>pd.to_datetime\<close>, and every row has a
  date.
\<close>

record train_row =
  tr_Store :: int
  tr_Dept :: int
  tr_Weekly_Sales :: real

record feature_row =
  fr_Store :: int
  fr_Date :: datetime
  fr_Temperature :: "real option"
  fr_Fuel_Price :: "real option"
  fr_MarkDown1 :: "real option"
  fr_MarkDown2 :: "real option"
  fr_MarkDown3 :: "real option"
  fr_MarkDown4 :: "real option"
  fr_MarkDown5 :: "real option"
  fr_CPI :: "real option"
  fr_Unemployment :: "real option"
  fr_IsHoliday :: "bool option"

text \<open>
  The dictionary that \<^verbatim>\<open>_extract_features\<close> returns. \<^verbatim>\<open>Temperature\<close> and
  \<^verbatim>\<open>Fuel_Price\<close> stay \<^verbatim>\<open>None\<close> when the cell is missing; for \<^verbatim>\<open>CPI\<close> and
  \<^verbatim>\<open>Unemployment\<close> \<open>None\<close> stands for the NaN that the column median is when no row has
  a value. The \<^verbatim>\<open>Date\<close> entry is the row's date (the source renders it with \<^verbatim>\<open>str\<close>).
\<close>

record features =
  f_Temperature :: "real option"
  f_Fuel_Price :: "real option"
  f_CPI :: "real option"
  f_Unemployment :: "real option"
  f_MarkDown1 :: real
  f_MarkDown2 :: real
  f_MarkDown3 :: real
  f_MarkDown4 :: real
  f_MarkDown5 :: real
  f_IsHoliday :: bool
  f_Date :: datetime

record stats =
  st_max :: real
  st_min :: real
  st_mean :: real
  st_median :: real
  st_std :: real

text \<open>
  The reductions of a pandas \<^verbatim>\<open>Series\<close> that the sources call, on a series without
  missing values: \<^verbatim>\<open>max\<close>, \<^verbatim>\<open>min\<close>, \<^verbatim>\<open>mean\<close>, \<^verbatim>\<open>median\<close> (the middle value of the
  sorted series, or the mean of the two middle values) and \<^verbatim>\<open>std\<close>, which pandas computes
  with \<^verbatim>\<open>ddof=1\<close> unless told otherwise: the sum of squared deviations is divided by
  \<open>N - 1\<close>. \<^verbatim>\<open>idxmin\<close> is the index of the first occurrence of the minimum. The
  sources call each of them on a series that has a value: the empty cases are decided
  before the call.
\<close>

definition series_max :: "real list \<Rightarrow> real" where
  "series_max xs = fold max (tl xs) (hd xs)"

definition series_min :: "real list \<Rightarrow> real" where
  "series_min xs = fold min (tl xs) (hd xs)"

definition series_mean :: "real list \<Rightarrow> real" where
  "series_mean xs = sum_list xs / real (length xs)"

definition series_median :: "real list \<Rightarrow> real" where
  "series_median xs =
     (let s = sort xs; n = length xs
      in if odd n then s ! (n div 2) else (s ! (n div 2 - 1) + s ! (n div 2)) / 2)"

definition series_std :: "real list \<Rightarrow> real" where
  "series_std xs =
     sqrt (sum_list (map (\<lambda>x. (x - series_mean xs)\<^sup>2) xs) / (real (length xs) - 1))"

definition column_median :: "real option list \<Rightarrow> real option" where
  "column_median col =
     (let present = map the (filter (\<lambda>v. v \<noteq> None) col)
      in if present = [] then None else Some (series_median present))"

definition idxmin :: "int list \<Rightarrow> nat" where
  "idxmin xs = (let m = fold min (tl xs) (hd xs) in length (takeWhile (\<lambda>x. x \<noteq> m) xs))"

text \<open>\<^verbatim>\<open>_extract_features\<close>; \<^verbatim>\<open>self._features_df\<close> is loaded when it is called.\<close>

definition extract_features :: "feature_row list \<Rightarrow> feature_row \<Rightarrow> features" where
  "extract_features features_df row =
     \<lparr>f_Temperature = fr_Temperature row,
      f_Fuel_Price = fr_Fuel_Price row,
      f_CPI = (case fr_CPI row of
                 Some x \<Rightarrow> Some x
               | None \<Rightarrow> column_median (map fr_CPI features_df)),
      f_Unemployment = (case fr_Unemployment row of
                 Some x \<Rightarrow> Some x
               | None \<Rightarrow> column_median (map fr_Unemployment features_df)),
      f_MarkDown1 = (case fr_MarkDown1 row of Some x \<Rightarrow> x | None \<Rightarrow> 0),
      f_MarkDown2 = (case fr_MarkDown2 row of Some x \<Rightarrow> x | None \<Rightarrow> 0),
      f_MarkDown3 = (case fr_MarkDown3 row of Some x \<Rightarrow> x | None \<Rightarrow> 0),
      f_MarkDown4 = (case fr_MarkDown4 row of Some x \<Rightarrow> x | None \<Rightarrow> 0),
      f_MarkDown5 = (case fr_MarkDown5 row of Some x \<Rightarrow> x | None \<Rightarrow> 0),
      f_IsHoliday = (case fr_IsHoliday row of Some b \<Rightarrow> b | None \<Rightarrow> False),
      f_Date = fr_Date row\<rparr>"

text \<open>
  \<^verbatim>\<open>get_nearest_date_features\<close>. Two timestamps are equal when they are the same point
  of the time line; \<^verbatim>\<open>.loc[...idxmin()]\<close> is the row at the first minimum of
  \<^verbatim>\<open>date_diff\<close>, since the filtered frame keeps the unique indices of the file.
\<close>

definition get_nearest_date_features ::
  "python_lib \<Rightarrow> feature_row list \<Rightarrow> int \<Rightarrow> string \<Rightarrow> error + features" where
  "get_nearest_date_features lib features_df store_id date =
     (case to_datetime lib date of
        None \<Rightarrow> Inl (ValueError (UnparseableDate date))
      | Some target_date \<Rightarrow>
          (let store_features = filter (\<lambda>r. fr_Store r = store_id) features_df
           in if store_features = [] then Inl (ValueError (NoFeaturesFound store_id))
              else
                (let exact_match =
                       filter (\<lambda>r. timestamp (fr_Date r) = timestamp target_date) store_features
                 in if exact_match \<noteq> [] then Inr (extract_features features_df (hd exact_match))
                    else
                      (let date_diff =
                             map (\<lambda>r. \<bar>timestamp (fr_Date r) - timestamp target_date\<bar>)
                               store_features;
                           nearest_row = store_features ! idxmin date_diff
                       in Inr (extract_features features_df nearest_row)))))"

text \<open>\<^verbatim>\<open>get_store_dept_stats\<close>.\<close>

definition get_store_dept_stats :: "train_row list \<Rightarrow> int \<Rightarrow> int \<Rightarrow> stats" where
  "get_store_dept_stats train_df store_id dept_id =
     (let filtered = filter (\<lambda>r. tr_Store r = store_id \<and> tr_Dept r = dept_id) train_df
      in if filtered = [] then
           \<lparr>st_max = 0, st_min = 0, st_mean = 0, st_median = 0, st_std = 0\<rparr>
         else
           (let sales = map tr_Weekly_Sales filtered
            in \<lparr>st_max = series_max sales,
                st_min = series_min sales,
                st_mean = series_mean sales,
                st_median = series_median sales,
                st_std = (if length sales > 1 then series_std sales else 0)\<rparr>))"

text \<open>
  Vocabulary for the properties: the feature records of a store, the distance of a record
  from the requested date, the weekly sales of a (store, department) pair, and what it
  means for returned features to carry a record: every value the record has is returned
  unchanged.
\<close>

definition store_rows :: "feature_row list \<Rightarrow> int \<Rightarrow> feature_row list" where
  "store_rows features_df store_id = filter (\<lambda>r. fr_Store r = store_id) features_df"

definition date_distance :: "datetime \<Rightarrow> feature_row \<Rightarrow> int" where
  "date_distance target r = \<bar>timestamp (fr_Date r) - timestamp target\<bar>"

definition history :: "train_row list \<Rightarrow> int \<Rightarrow> int \<Rightarrow> real list" where
  "history train_df store_id dept_id =
     map tr_Weekly_Sales (filter (\<lambda>r. tr_Store r = store_id \<and> tr_Dept r = dept_id) train_df)"

definition carries :: "feature_row \<Rightarrow> features \<Rightarrow> bool" where
  "carries row f \<longleftrightarrow>
     f_Date f = fr_Date row \<and>
     f_Temperature f = fr_Temperature row \<and>
     f_Fuel_Price f = fr_Fuel_Price row \<and>
     (case fr_CPI row of Some x \<Rightarrow> f_CPI f = Some x | None \<Rightarrow> True) \<and>
     (case fr_Unemployment row of Some x \<Rightarrow> f_Unemployment f = Some x | None \<Rightarrow> True) \<and>
     (case fr_MarkDown1 row of Some x \<Rightarrow> f_MarkDown1 f = x | None \<Rightarrow> True) \<and>
     (case fr_MarkDown2 row of Some x \<Rightarrow> f_MarkDown2 f = x | None \<Rightarrow> True) \<and>
     (case fr_MarkDown3 row of Some x \<Rightarrow> f_MarkDown3 f = x | None \<Rightarrow> True) \<and>
     (case fr_MarkDown4 row of Some x \<Rightarrow> f_MarkDown4 f = x | None \<Rightarrow> True) \<and>
     (case fr_MarkDown5 row of Some x \<Rightarrow> f_MarkDown5 f = x | None \<Rightarrow> True) \<and>
     (case fr_IsHoliday row of Some b \<Rightarrow> f_IsHoliday f = b | None \<Rightarrow> True)"

text \<open>
  The population standard deviation, which divides the sum of squared deviations by \<open>N\<close>:
  the statistic the specification names, for comparison with \<open>series_std\<close>.
\<close>

definition population_std :: "real list \<Rightarrow> real" where
  "population_std xs =
     sqrt (sum_list (map (\<lambda>x. (x - series_mean xs)\<^sup>2) xs) / real (length xs))"


section \<open>Price feature assembler: one-hot expansion\<close>

text \<open>
  The frame that \<^verbatim>\<open>preprocess_price_features\<close> builds has one row, so it is a map from
  column names to the cell of that row. Numbers are compared by value, as pandas does.
  \<^verbatim>\<open>df[col] = (df[src] == v).astype(int)\<close> reads the column \<^verbatim>\<open>src\<close>, which raises
  \<^verbatim>\<open>KeyError\<close> when the frame has no such column, and assigns the column \<^verbatim>\<open>col\<close>.
\<close>

datatype cell = NumCell real | StrCell string | NoneCell

type_synonym frame = "string \<rightharpoonup> cell"

definition assign_indicator :: "frame \<Rightarrow> string \<Rightarrow> string \<Rightarrow> cell \<Rightarrow> error + frame" where
  "assign_indicator df src col v =
     (case df src of
        None \<Rightarrow> Inl (KeyError src)
      | Some c \<Rightarrow> Inr (df(col \<mapsto> NumCell (if c = v then 1 else 0))))"

text \<open>A \<^verbatim>\<open>for\<close> loop whose body may raise: the first exception ends the loop.\<close>

fun fold_err :: "('a \<Rightarrow> 's \<Rightarrow> error + 's) \<Rightarrow> 'a list \<Rightarrow> 's \<Rightarrow> error + 's" where
  "fold_err f [] s = Inr s"
| "fold_err f (x # xs) s = (case f x s of Inl e \<Rightarrow> Inl e | Inr s' \<Rightarrow> fold_err f xs s')"

text \<open>
  \<^verbatim>\<open>_one_hot_encode_price_features\<close>; the training data is loaded when the department
  loop starts, so the \<^verbatim>\<open>if train_df is not None\<close> branch is the one taken.
\<close>

definition one_hot_encode_price_features :: "train_row list \<Rightarrow> frame \<Rightarrow> error + frame" where
  "one_hot_encode_price_features train_df df =
     (case fold_err (\<lambda>store_num df.
               assign_indicator df ''Store'' (''Store_'' @ str_int store_num)
                 (NumCell (of_int store_num)))
             [1..45] df of
        Inl e \<Rightarrow> Inl e
      | Inr df \<Rightarrow>
          (let dept_values = sort (remdups (map tr_Dept train_df))
           in case fold_err (\<lambda>dept_val df.
                      assign_indicator df ''Dept'' (''Dept_'' @ str_int dept_val)
                        (NumCell (of_int dept_val)))
                    dept_values df of
                Inl e \<Rightarrow> Inl e
              | Inr df \<Rightarrow>
                  fold_err (\<lambda>type_val df.
                      assign_indicator df ''Type'' (''Type_'' @ type_val) (StrCell type_val))
                    [''A'', ''B'', ''C''] df))"

text \<open>
  The three indicator blocks, as the lists of their column names, and what it means for a
  block of a frame to be one-hot: the names are distinct, exactly one column is 1 and
  every column is 1 or 0.
\<close>

definition store_columns :: "string list" where
  "store_columns = map (\<lambda>n. ''Store_'' @ str_int n) [1..45]"

definition dept_columns :: "train_row list \<Rightarrow> string list" where
  "dept_columns train_df =
     map (\<lambda>d. ''Dept_'' @ str_int d) (sort (remdups (map tr_Dept train_df)))"

definition type_columns :: "string list" where
  "type_columns = map (\<lambda>t. ''Type_'' @ t) [''A'', ''B'', ''C'']"

definition one_hot_block :: "frame \<Rightarrow> string list \<Rightarrow> bool" where
  "one_hot_block out cols \<longleftrightarrow>
     distinct cols \<and>
     length (filter (\<lambda>c. out c = Some (NumCell 1)) cols) = 1 \<and>
     list_all (\<lambda>c. out c = Some (NumCell 1) \<or> out c = Some (NumCell 0)) cols"

text \<open>
  Example data: feature records of two stores (store 1 on two Fridays a fortnight apart),
  a training history with three (store, department) pairs, and the columns of an assembled
  frame that the one-hot expansion reads.
\<close>

definition row_oct_26 :: feature_row where
  "row_oct_26 = \<lparr>fr_Store = 1, fr_Date = date_2012_10_26, fr_Temperature = Some 69,
     fr_Fuel_Price = Some (7 / 2), fr_MarkDown1 = Some 5000, fr_MarkDown2 = None,
     fr_MarkDown3 = Some 20, fr_MarkDown4 = None, fr_MarkDown5 = Some 900,
     fr_CPI = Some 223, fr_Unemployment = Some (13 / 2), fr_IsHoliday = Some False\<rparr>"

definition row_nov_09 :: feature_row where
  "row_nov_09 = \<lparr>fr_Store = 1, fr_Date = date_2012_11_09, fr_Temperature = Some 61,
     fr_Fuel_Price = Some 3, fr_MarkDown1 = Some 11000, fr_MarkDown2 = Some 3000,
     fr_MarkDown3 = None, fr_MarkDown4 = Some 4000, fr_MarkDown5 = Some 6000,
     fr_CPI = None, fr_Unemployment = None, fr_IsHoliday = Some False\<rparr>"

definition row_store_2 :: feature_row where
  "row_store_2 = \<lparr>fr_Store = 2, fr_Date = date_2012_11_02, fr_Temperature = Some 55,
     fr_Fuel_Price = Some 3, fr_MarkDown1 = None, fr_MarkDown2 = None,
     fr_MarkDown3 = None, fr_MarkDown4 = None, fr_MarkDown5 = None,
     fr_CPI = Some 220, fr_Unemployment = Some 6, fr_IsHoliday = None\<rparr>"

definition demo_features_df :: "feature_row list" where
  "demo_features_df = [row_oct_26, row_store_2, row_nov_09]"

definition demo_train_df :: "train_row list" where
  "demo_train_df = [\<lparr>tr_Store = 1, tr_Dept = 1, tr_Weekly_Sales = 0\<rparr>,
                    \<lparr>tr_Store = 1, tr_Dept = 1, tr_Weekly_Sales = 2\<rparr>,
                    \<lparr>tr_Store = 2, tr_Dept = 1, tr_Weekly_Sales = 7\<rparr>,
                    \<lparr>tr_Store = 2, tr_Dept = 3, tr_Weekly_Sales = 5\<rparr>]"

definition demo_frame :: frame where
  "demo_frame = [''Store'' \<mapsto> NumCell 1, ''Dept'' \<mapsto> NumCell 3, ''Type'' \<mapsto> StrCell ''A'',
                 ''Size'' \<mapsto> NumCell 151315]"


section \<open>Prediction strategies\<close>

subsection \<open>The tree ensemble (\<^verbatim>\<open>api/strategies/demand/lightgbm_strategy.py\<close>)\<close>

text \<open>
  A loaded \<^verbatim>\<open>lgb.Booster\<close> is the function \<^verbatim>\<open>model.predict(X, ...)[0]\<close> from the feature
  array to its output, in log1p space. What \<^verbatim>\<open>load\<close> reads from disk is an argument of
  the model: the parsed \<^verbatim>\<open>config.json\<close> (\<open>None\<close> when the file is missing, so that
  \<^verbatim>\<open>open\<close> raises) and, for each fold, the booster of \<^verbatim>\<open>model_fold_i.txt\<close> (\<open>None\<close>
  when the file does not exist). \<^verbatim>\<open>n_folds\<close> is the constant of \<^verbatim>\<open>get_config\<close>.
\<close>

type_synonym booster = "real list \<Rightarrow> real"

record demand_files =
  config_file :: "demand_config option"
  fold_files :: "nat \<Rightarrow> booster option"

definition n_folds :: nat where
  "n_folds = 10"

record LightGBMStrategy = BaseStrategy +
  models :: "booster list"
  config_dict :: "demand_config option"


text \<open>
  A method that assigns attributes and may raise returns its outcome together with the
  object as the call leaves it, also when it raises. \<^verbatim>\<open>load\<close> appends to
  \<^verbatim>\<open>self.models\<close> and sets \<^verbatim>\<open>_loaded\<close> only at its end.
\<close>

definition lightgbm_load ::
  "demand_files \<Rightarrow> LightGBMStrategy \<Rightarrow> (error + unit) \<times> LightGBMStrategy" where
  "lightgbm_load files s =
     (if loaded s then (Inr (), s)
      else case config_file files of
             None \<Rightarrow> (Inl (FileNotFoundError ConfigFileMissing), s)
           | Some cfg \<Rightarrow>
               (let s = s\<lparr>config_dict := Some cfg\<rparr>;
                    s = s\<lparr>models :=
                          foldl (\<lambda>ms i. case fold_files files i of
                                           None \<Rightarrow> ms
                                         | Some model \<Rightarrow> ms @ [model])
                            (models s) [0..<n_folds]\<rparr>
                in if models s = [] then (Inl (ValueError NoModelsLoaded), s)
                   else (Inr (), s\<lparr>loaded := True\<rparr>)))"

text \<open>\<^verbatim>\<open>BaseStrategy.ensure_loaded\<close>, with the \<^verbatim>\<open>load\<close> of this class.\<close>

definition lightgbm_ensure_loaded ::
  "demand_files \<Rightarrow> LightGBMStrategy \<Rightarrow> (error + unit) \<times> LightGBMStrategy" where
  "lightgbm_ensure_loaded files s =
     (if \<not> loaded s then lightgbm_load files s else (Inr (), s))"

text \<open>
  \<^verbatim>\<open>predict\<close>. The conversion of the feature array to \<^verbatim>\<open>float32\<close> is the identity on
  the reals; \<^verbatim>\<open>cat_indices\<close> is computed and not used. \<^verbatim>\<open>np.mean\<close> of an empty list is
  NaN, where the division below gives 0: no property is stated for an empty ensemble,
  which \<^verbatim>\<open>load\<close> never leaves behind with \<^verbatim>\<open>_loaded\<close> set.
\<close>

definition lightgbm_predict ::
  "demand_files \<Rightarrow> (string \<rightharpoonup> pyval) \<Rightarrow> LightGBMStrategy \<Rightarrow>
   (error + real) \<times> LightGBMStrategy" where
  "lightgbm_predict files features s =
     (case lightgbm_ensure_loaded files s of
        (Inl e, s) \<Rightarrow> (Inl e, s)
      | (Inr _, s) \<Rightarrow>
          (case config_dict s of
             None \<Rightarrow> (Inl (TypeError ''config_dict''), s)
           | Some cfg \<Rightarrow>
               (case fold_err (\<lambda>col feature_array.
                         case features col of
                           None \<Rightarrow> Inl (ValueError (MissingFeature col))
                         | Some v \<Rightarrow> Inr (feature_array @ [py_float v]))
                       (feature_columns cfg) [] of
                  Inl e \<Rightarrow> (Inl e, s)
                | Inr X \<Rightarrow>
                    (let predictions = map (\<lambda>model. exp (model X) - 1) (models s)
                     in (Inr (sum_list predictions / real (length predictions)), s)))))"

text \<open>
  The feature array of a request whose features contain every configured column, and
  the formula the specification names for the ensemble: the exponential of the mean of
  the log-space outputs, minus one.
\<close>

definition feature_vector :: "demand_config \<Rightarrow> (string \<rightharpoonup> pyval) \<Rightarrow> real list" where
  "feature_vector cfg features = map (\<lambda>col. py_float (the (features col))) (feature_columns cfg)"

definition exp_of_mean :: "real list \<Rightarrow> real" where
  "exp_of_mean xs = exp (sum_list xs / real (length xs)) - 1"


subsection \<open>The linear model (\<^verbatim>\<open>api/strategies/price/linear_strategy.py\<close>)\<close>

text \<open>
  The unpickled model, as what the sources use of it: the attribute \<^verbatim>\<open>coef_\<close> (\<open>None\<close>
  when \<^verbatim>\<open>hasattr\<close> is false) and \<^verbatim>\<open>model.predict(X)[0]\<close> on the one-row array \<^verbatim>\<open>X\<close>,
  which may raise. \<^verbatim>\<open>np.array(..., dtype=np.float32)\<close> turns \<^verbatim>\<open>None\<close> into NaN, the
  \<open>None\<close> of a \<open>real option\<close>. The model file is \<open>None\<close> when it does not exist. The
  attribute \<^verbatim>\<open>scaler\<close> is never assigned after \<^verbatim>\<open>__init__\<close> and never read.
\<close>

record pickled_model =
  coef :: "real list option"
  predict_row :: "real option list \<Rightarrow> error + real"










subsection \<open>The neural network (\<^verbatim>\<open>api/strategies/price/dnn_strategy.py\<close>)\<close>














text \<open>
  Example artifacts: two boosters whose log-space outputs are 0 and 2, a model directory
  with no fold file and one with the two boosters, the strategy after a load that read
  the configuration and found no model, the strategy after a load of the two boosters,
  a pickled linear model with 71 coefficients, a model directory without its file, and
  for the neural network an environment without and one with Keras.
\<close>

definition booster_a :: booster where
  "booster_a = (\<lambda>X. 0)"

definition booster_b :: booster where
  "booster_b = (\<lambda>X. 2)"


definition two_model_files :: demand_files where
  "two_model_files = \<lparr>config_file = Some demo_config,
     fold_files = (\<lambda>i. if i = 0 then Some booster_a else if i = 1 then Some booster_b else None)\<rparr>"

definition demo_request :: "string \<rightharpoonup> pyval" where
  "demo_request = [''base_price'' \<mapsto> PyFloat 100, ''store_id'' \<mapsto> PyInt 8091]"


definition two_models_loaded :: LightGBMStrategy where
  "two_models_loaded =
     \<lparr>loaded = True, models = [booster_a, booster_b], config_dict = Some demo_config\<rparr>"

definition demo_pickle :: pickled_model where
  "demo_pickle = \<lparr>coef = Some (replicate 71 1),
     predict_row = (\<lambda>X. Inr (sum_list (map (\<lambda>v. case v of None \<Rightarrow> 0 | Some x \<Rightarrow> x) X)))\<rparr>"







section \<open>Properties of the registry\<close>

lemma map_of_None_iff_names: "map_of (strategies r) n = None \<longleftrightarrow> n \<notin> set (list_all_names r)"
  by (simp add: list_all_names_def map_of_eq_None_iff)

lemma list_all_names_register:
  "set (list_all_names (register n s r)) = insert n (set (list_all_names r))"
  by (simp add: list_all_names_def register_def AList.dom_update)

lemma default_name_register: "default_name (register n s r) = default_name r"
  by (simp add: register_def)

lemma registry_inv_init: "registry_inv registry_init"
  by (simp add: registry_inv_def registry_init_def)

lemma registry_inv_register: "registry_inv r \<Longrightarrow> registry_inv (register n s r)"
  by (auto simp: registry_inv_def list_all_names_register default_name_register
      split: option.splits)

lemma registry_inv_set_default:
  "set_default n r = Inr r' \<Longrightarrow> registry_inv r'"
proof -
  assume a: "set_default n r = Inr r'"
  then have "map_of (strategies r) n \<noteq> None" and r': "r' = r\<lparr>default_name := Some n\<rparr>"
    by (auto simp: set_default_def split: option.splits)
  then have "n \<in> set (list_all_names r)"
    by (simp add: map_of_None_iff_names)
  with r' show "registry_inv r'"
    by (simp add: registry_inv_def list_all_names_def)
qed

lemma registry_inv_step: "registry_inv r \<Longrightarrow> registry_inv (registry_step r c)"
proof (cases c)
  case (Register n s)
  assume "registry_inv r"
  with Register show ?thesis by (simp add: registry_inv_register)
next
  case (SetDefault n)
  assume "registry_inv r"
  with SetDefault show ?thesis
    by (cases "set_default n r") (simp_all add: registry_inv_set_default)
qed simp_all

lemma registry_inv_foldl:
  "registry_inv r \<Longrightarrow> registry_inv (foldl registry_step r calls)"
  by (induction calls arbitrary: r) (simp_all add: registry_inv_step)

text \<open>
  C3. \<^verbatim>\<open>get\<close> without a name fails with the no-default \<^verbatim>\<open>ValueError\<close> when no default
  is set, and otherwise behaves as \<^verbatim>\<open>get\<close> of the default name. \<^verbatim>\<open>get\<close> of a name
  that is not registered fails with the not-found \<^verbatim>\<open>ValueError\<close> whose message carries
  \<^verbatim>\<open>list_all()\<close>, all the registered names; \<^verbatim>\<open>get\<close> of a registered name returns the
  strategy stored under it, as stored, so with the loaded flag it has in the registry.
\<close>

theorem get_resolves:
  "(default_name r = None \<longrightarrow> get None r = Inl (ValueError NoDefaultStrategy)) \<and>
   (default_name r = Some d \<longrightarrow> get None r = get (Some d) r) \<and>
   (n \<notin> set (list_all_names r) \<longrightarrow>
      get (Some n) r = Inl (ValueError (StrategyNotFound n (list_all_names r)))) \<and>
   (n \<in> set (list_all_names r) \<longrightarrow>
      (\<exists>s. get (Some n) r = Inr s \<and> map_of (strategies r) n = Some s \<and>
           (n, s) \<in> set (strategies r) \<and>
           is_loaded s = is_loaded (the (map_of (strategies r) n))))"
proof (intro conjI impI)
  assume "default_name r = None"
  then show "get None r = Inl (ValueError NoDefaultStrategy)"
    by (simp add: get_def)
next
  assume "default_name r = Some d"
  then show "get None r = get (Some d) r"
    by (simp add: get_def)
next
  assume "n \<notin> set (list_all_names r)"
  then have "map_of (strategies r) n = None"
    by (simp add: map_of_None_iff_names)
  then show "get (Some n) r = Inl (ValueError (StrategyNotFound n (list_all_names r)))"
    by (simp add: get_def)
next
  assume "n \<in> set (list_all_names r)"
  then obtain s where s: "map_of (strategies r) n = Some s"
    using map_of_None_iff_names [of r n] by auto
  then have "get (Some n) r = Inr s" by (simp add: get_def)
  with s show "\<exists>s. get (Some n) r = Inr s \<and> map_of (strategies r) n = Some s \<and>
           (n, s) \<in> set (strategies r) \<and>
           is_loaded s = is_loaded (the (map_of (strategies r) n))"
    by (auto dest: map_of_SomeD)
qed

theorem get_resolves_witness:
  "default_name price_registry_undefaulted = None \<and>
   get None price_registry_undefaulted = Inl (ValueError NoDefaultStrategy) \<and>
   default_name price_registry = Some ''linear'' \<and>
   get None price_registry = get (Some ''linear'') price_registry \<and>
   ''dnn'' \<notin> set (list_all_names price_registry) \<and>
   get (Some ''dnn'') price_registry =
     Inl (ValueError (StrategyNotFound ''dnn'' [''linear''])) \<and>
   ''linear'' \<in> set (list_all_names price_registry) \<and>
   get (Some ''linear'') price_registry = Inr \<lparr>loaded = False\<rparr>"
proof -
  have names: "list_all_names price_registry = [''linear'']"
    by (simp add: price_registry_def price_registry_undefaulted_def register_def
        registry_init_def set_default_def list_all_names_def)
  have d0: "default_name price_registry_undefaulted = None"
    by (simp add: price_registry_undefaulted_def register_def registry_init_def)
  have d1: "default_name price_registry = Some ''linear''"
    by (simp add: price_registry_def price_registry_undefaulted_def register_def
        registry_init_def set_default_def)
  have m: "map_of (strategies price_registry) ''linear'' = Some \<lparr>loaded = False\<rparr>"
    by (simp add: price_registry_def price_registry_undefaulted_def register_def
        registry_init_def set_default_def)
  from get_resolves [of price_registry_undefaulted "''linear''" "''dnn''"] d0
  have a: "get None price_registry_undefaulted = Inl (ValueError NoDefaultStrategy)"
    by simp
  from get_resolves [of price_registry "''linear''" "''dnn''"] d1 names
  have b: "get None price_registry = get (Some ''linear'') price_registry"
    and c: "get (Some ''dnn'') price_registry =
              Inl (ValueError (StrategyNotFound ''dnn'' [''linear'']))"
    by simp_all
  from get_resolves [of price_registry "''linear''" "''linear''"] names m
  have e: "get (Some ''linear'') price_registry = Inr \<lparr>loaded = False\<rparr>"
    by auto
  from a b c e d0 d1 names show ?thesis by simp
qed

text \<open>
  C9. The empty registry satisfies the invariant, every call preserves it, and so every
  registry reached from the empty one by any sequence of calls satisfies it.
  \<^verbatim>\<open>set_default\<close> of a name that is not registered fails with the not-found
  \<^verbatim>\<open>ValueError\<close> and \<^verbatim>\<open>register\<close> keeps every registered name.
\<close>

theorem registry_invariant:
  "registry_inv (registry_init :: 'a StrategyRegistry) \<and>
   (registry_inv r \<longrightarrow> registry_inv (registry_step r c)) \<and>
   registry_inv (registry_run calls :: 'a StrategyRegistry) \<and>
   (n \<notin> set (list_all_names r) \<longrightarrow>
      set_default n r = Inl (ValueError (StrategyNotFound n (list_all_names r)))) \<and>
   set (list_all_names r) \<subseteq> set (list_all_names (register n s r))"
proof (intro conjI impI)
  show "registry_inv (registry_init :: 'a StrategyRegistry)"
    by (rule registry_inv_init)
  show "registry_inv (registry_run calls :: 'a StrategyRegistry)"
    unfolding registry_run_def by (rule registry_inv_foldl [OF registry_inv_init])
  show "set (list_all_names r) \<subseteq> set (list_all_names (register n s r))"
    by (auto simp: list_all_names_register)
next
  assume "registry_inv r"
  then show "registry_inv (registry_step r c)" by (rule registry_inv_step)
next
  assume "n \<notin> set (list_all_names r)"
  then have "map_of (strategies r) n = None" by (simp add: map_of_None_iff_names)
  then show "set_default n r = Inl (ValueError (StrategyNotFound n (list_all_names r)))"
    by (simp add: set_default_def)
qed

theorem registry_invariant_witness:
  "registry_inv price_registry_undefaulted \<and>
   registry_inv (registry_step price_registry_undefaulted (SetDefault ''linear'')) \<and>
   default_name (registry_step price_registry_undefaulted (SetDefault ''linear'')) =
     Some ''linear'' \<and>
   ''dnn'' \<notin> set (list_all_names price_registry_undefaulted) \<and>
   set_default ''dnn'' price_registry_undefaulted =
     Inl (ValueError (StrategyNotFound ''dnn'' [''linear'']))"
proof -
  have names: "list_all_names price_registry_undefaulted = [''linear'']"
    by (simp add: price_registry_undefaulted_def register_def registry_init_def
        list_all_names_def)
  have inv0: "registry_inv price_registry_undefaulted"
    by (simp add: registry_inv_def price_registry_undefaulted_def register_def
        registry_init_def)
  have d: "default_name (registry_step price_registry_undefaulted (SetDefault ''linear'')) =
     Some ''linear''"
    by (simp add: price_registry_undefaulted_def register_def registry_init_def
        set_default_def)
  have notin: "''dnn'' \<notin> set (list_all_names price_registry_undefaulted)"
    by (simp add: names)
  note inst = registry_invariant [of price_registry_undefaulted "SetDefault ''linear''" "[]"
      "''dnn''" "\<lparr>loaded = False\<rparr>"]
  from inst inv0
  have a: "registry_inv (registry_step price_registry_undefaulted (SetDefault ''linear''))"
    by blast
  from inst notin
  have b: "set_default ''dnn'' price_registry_undefaulted =
     Inl (ValueError (StrategyNotFound ''dnn'' (list_all_names price_registry_undefaulted)))"
    by blast
  from inv0 a d notin b show ?thesis
    unfolding names by blast
qed


section \<open>Properties of the demand encoder\<close>

lemma foldl_assign_at:
  "foldl (\<lambda>m k. case h k of None \<Rightarrow> m | Some x \<Rightarrow> m(k \<mapsto> g k x)) m0 ks k =
     (if k \<in> set ks then (case h k of None \<Rightarrow> m0 k | Some x \<Rightarrow> Some (g k x)) else m0 k)"
  by (induction ks arbitrary: m0) (auto split: option.splits)

lemma encode_store_lookup:
  "encode_store enc k =
     lookup_or_mean (global_mean enc) (store_encoding_dict enc) (str_int k) (KNum (of_int k))"
  by (auto simp: encode_store_def lookup_or_mean_def Let_def split: option.splits)

lemma encode_sku_lookup:
  "encode_sku enc k =
     lookup_or_mean (global_mean enc) (sku_encoding_dict enc) (str_int k) (KNum (of_int k))"
  by (auto simp: encode_sku_def lookup_or_mean_def Let_def split: option.splits)

lemma encode_time_features_fold:
  "encode_time_features lib enc cfg features =
     foldl (\<lambda>m k. case features k of None \<Rightarrow> m
              | Some x \<Rightarrow> m(k \<mapsto>
                  (case time_encoding_dicts enc k of
                     Some d \<Rightarrow> lookup_or_mean (global_mean enc) d (py_str lib x) (as_key x)
                   | None \<Rightarrow> py_float x)))
       Map.empty (time_feature_names cfg)"
proof -
  have "(\<lambda>encoded feat_name.
           case features feat_name of
             None \<Rightarrow> encoded
           | Some value \<Rightarrow>
               (case time_encoding_dicts enc feat_name of
                  Some feat_dict \<Rightarrow>
                    (let value_key = (if feat_dict (KStr (py_str lib value)) \<noteq> None
                                      then KStr (py_str lib value) else as_key value)
                     in case feat_dict value_key of
                          Some v \<Rightarrow> encoded(feat_name \<mapsto> v)
                        | None \<Rightarrow> encoded(feat_name \<mapsto> global_mean enc))
                | None \<Rightarrow> encoded(feat_name \<mapsto> py_float value)))
      = (\<lambda>m k. case features k of None \<Rightarrow> m
              | Some x \<Rightarrow> m(k \<mapsto>
                  (case time_encoding_dicts enc k of
                     Some d \<Rightarrow> lookup_or_mean (global_mean enc) d (py_str lib x) (as_key x)
                   | None \<Rightarrow> py_float x)))"
    by (intro ext) (auto simp: lookup_or_mean_def Let_def split: option.splits)
  then show ?thesis
    by (simp add: encode_time_features_def time_feature_names_def Let_def)
qed

lemma encode_time_features_at:
  "encode_time_features lib enc cfg features f =
     (if f \<in> set (time_feature_names cfg) then
        (case features f of
           None \<Rightarrow> None
         | Some x \<Rightarrow> Some (case time_encoding_dicts enc f of
                     Some d \<Rightarrow> lookup_or_mean (global_mean enc) d (py_str lib x) (as_key x)
                   | None \<Rightarrow> py_float x))
      else None)"
  unfolding encode_time_features_fold by (simp add: foldl_assign_at)

lemma lookup_or_mean_miss:
  "d (KStr s) = None \<Longrightarrow> d k = None \<Longrightarrow> lookup_or_mean gm d s k = gm"
  by (simp add: lookup_or_mean_def)

lemma lookup_or_mean_str: "d (KStr s) = Some v \<Longrightarrow> lookup_or_mean gm d s k = v"
  by (simp add: lookup_or_mean_def)

lemma lookup_or_mean_native:
  "d (KStr s) = None \<Longrightarrow> d k = Some v \<Longrightarrow> lookup_or_mean gm d s k = v"
  by (simp add: lookup_or_mean_def)

lemma lookup_or_mean_hit:
  "d (KStr s) \<noteq> None \<or> d k \<noteq> None \<Longrightarrow>
     d (KStr s) = Some (lookup_or_mean gm d s k) \<or> d k = Some (lookup_or_mean gm d s k)"
  by (auto simp: lookup_or_mean_def split: option.splits)

lemmas str_eval = str_int_def str_nat.simps digit_char_def

text \<open>
  C5. A store id, a SKU id or a time-feature value that its encoding table holds under
  neither the string form nor the native form is encoded as the global mean. One that the
  table holds under either form is encoded as a value the table stores under one of the
  two forms. The encoders are total functions into the reals, and a configured time
  feature that the calendar features contain always gets an entry: no lookup raises and
  none yields \<^verbatim>\<open>None\<close>.
\<close>

theorem unseen_key_global_mean:
  "(store_encoding_dict enc (KStr (str_int k)) = None \<and>
    store_encoding_dict enc (KNum (of_int k)) = None \<longrightarrow>
      encode_store enc k = global_mean enc) \<and>
   (store_encoding_dict enc (KStr (str_int k)) \<noteq> None \<or>
    store_encoding_dict enc (KNum (of_int k)) \<noteq> None \<longrightarrow>
      store_encoding_dict enc (KStr (str_int k)) = Some (encode_store enc k) \<or>
      store_encoding_dict enc (KNum (of_int k)) = Some (encode_store enc k)) \<and>
   (sku_encoding_dict enc (KStr (str_int k)) = None \<and>
    sku_encoding_dict enc (KNum (of_int k)) = None \<longrightarrow>
      encode_sku enc k = global_mean enc) \<and>
   (sku_encoding_dict enc (KStr (str_int k)) \<noteq> None \<or>
    sku_encoding_dict enc (KNum (of_int k)) \<noteq> None \<longrightarrow>
      sku_encoding_dict enc (KStr (str_int k)) = Some (encode_sku enc k) \<or>
      sku_encoding_dict enc (KNum (of_int k)) = Some (encode_sku enc k)) \<and>
   (f \<in> set (time_feature_names cfg) \<and> features f = Some x \<and>
    time_encoding_dicts enc f = Some d \<longrightarrow>
      (d (KStr (py_str lib x)) = None \<and> d (as_key x) = None \<longrightarrow>
         encode_time_features lib enc cfg features f = Some (global_mean enc)) \<and>
      (d (KStr (py_str lib x)) \<noteq> None \<or> d (as_key x) \<noteq> None \<longrightarrow>
         (\<exists>v. encode_time_features lib enc cfg features f = Some v \<and>
              (d (KStr (py_str lib x)) = Some v \<or> d (as_key x) = Some v))))"
proof (intro conjI impI)
  show "encode_store enc k = global_mean enc"
    if "store_encoding_dict enc (KStr (str_int k)) = None \<and>
        store_encoding_dict enc (KNum (of_int k)) = None"
    using that by (simp add: encode_store_lookup lookup_or_mean_miss)
  show "store_encoding_dict enc (KStr (str_int k)) = Some (encode_store enc k) \<or>
        store_encoding_dict enc (KNum (of_int k)) = Some (encode_store enc k)"
    if "store_encoding_dict enc (KStr (str_int k)) \<noteq> None \<or>
        store_encoding_dict enc (KNum (of_int k)) \<noteq> None"
    unfolding encode_store_lookup using that by (rule lookup_or_mean_hit)
  show "encode_sku enc k = global_mean enc"
    if "sku_encoding_dict enc (KStr (str_int k)) = None \<and>
        sku_encoding_dict enc (KNum (of_int k)) = None"
    using that by (simp add: encode_sku_lookup lookup_or_mean_miss)
  show "sku_encoding_dict enc (KStr (str_int k)) = Some (encode_sku enc k) \<or>
        sku_encoding_dict enc (KNum (of_int k)) = Some (encode_sku enc k)"
    if "sku_encoding_dict enc (KStr (str_int k)) \<noteq> None \<or>
        sku_encoding_dict enc (KNum (of_int k)) \<noteq> None"
    unfolding encode_sku_lookup using that by (rule lookup_or_mean_hit)
next
  assume a: "f \<in> set (time_feature_names cfg) \<and> features f = Some x \<and>
    time_encoding_dicts enc f = Some d"
  then have at: "encode_time_features lib enc cfg features f =
      Some (lookup_or_mean (global_mean enc) d (py_str lib x) (as_key x))"
    by (simp add: encode_time_features_at)
  show "encode_time_features lib enc cfg features f = Some (global_mean enc)"
    if "d (KStr (py_str lib x)) = None \<and> d (as_key x) = None"
    using that by (simp add: at lookup_or_mean_miss)
  show "\<exists>v. encode_time_features lib enc cfg features f = Some v \<and>
              (d (KStr (py_str lib x)) = Some v \<or> d (as_key x) = Some v)"
    if "d (KStr (py_str lib x)) \<noteq> None \<or> d (as_key x) \<noteq> None"
    using lookup_or_mean_hit [OF that] by (simp add: at)
qed

theorem unseen_key_global_mean_witness:
  "store_encoding_dict demo_encoders (KStr (str_int 7)) = None \<and>
   store_encoding_dict demo_encoders (KNum (of_int 7)) = None \<and>
   encode_store demo_encoders 7 = 30 \<and>
   sku_encoding_dict demo_encoders (KStr (str_int 7)) = None \<and>
   sku_encoding_dict demo_encoders (KNum (of_int 7)) = None \<and>
   encode_sku demo_encoders 7 = 30 \<and>
   store_encoding_dict demo_encoders (KNum (of_int 8095)) \<noteq> None \<and>
   encode_store demo_encoders 8095 = 42 \<and>
   sku_encoding_dict demo_encoders (KNum (of_int 216419)) \<noteq> None \<and>
   encode_sku demo_encoders 216419 = 22 \<and>
   ''month'' \<in> set (time_feature_names demo_config) \<and>
   demo_features 3 ''month'' = Some (PyInt 3) \<and>
   encode_time_features demo_lib demo_encoders demo_config (demo_features 3) ''month'' = Some 30 \<and>
   encode_time_features demo_lib demo_encoders demo_config (demo_features 2) ''month'' = Some 17"
proof -
  let ?d = "[KStr ''1'' \<mapsto> 15, KNum 1 \<mapsto> 16, KNum 2 \<mapsto> (17::real)]"
  have s7: "store_encoding_dict demo_encoders (KStr (str_int 7)) = None \<and>
            store_encoding_dict demo_encoders (KNum (of_int 7)) = None"
    by (simp add: demo_encoders_def str_eval)
  have k7: "sku_encoding_dict demo_encoders (KStr (str_int 7)) = None \<and>
            sku_encoding_dict demo_encoders (KNum (of_int 7)) = None"
    by (simp add: demo_encoders_def str_eval)
  have t: "''month'' \<in> set (time_feature_names demo_config) \<and>
           demo_features 3 ''month'' = Some (PyInt 3) \<and>
           time_encoding_dicts demo_encoders ''month'' = Some ?d"
    by (simp add: demo_config_def time_feature_names_def demo_features_def demo_encoders_def)
  have t3: "?d (KStr (py_str demo_lib (PyInt 3))) = None \<and> ?d (as_key (PyInt 3)) = None"
    by (simp add: str_eval)
  note miss = unseen_key_global_mean [of demo_encoders 7 "''month''" demo_config
      "demo_features 3" "PyInt 3" ?d demo_lib]
  from miss s7 have a: "encode_store demo_encoders 7 = global_mean demo_encoders" by blast
  from miss k7 have b: "encode_sku demo_encoders 7 = global_mean demo_encoders" by blast
  from miss t t3
  have c: "encode_time_features demo_lib demo_encoders demo_config (demo_features 3) ''month''
             = Some (global_mean demo_encoders)" by blast
  have gm: "global_mean demo_encoders = 30" by (simp add: demo_encoders_def)
  have s8095: "store_encoding_dict demo_encoders (KStr (str_int 8095)) = None"
      "store_encoding_dict demo_encoders (KNum (of_int 8095)) = Some 42"
    by (simp_all add: demo_encoders_def str_eval)
  from unseen_key_global_mean [of demo_encoders 8095] s8095
  have d: "encode_store demo_encoders 8095 = 42" by auto
  have k216419: "sku_encoding_dict demo_encoders (KStr (str_int 216419)) = None"
      "sku_encoding_dict demo_encoders (KNum (of_int 216419)) = Some 22"
    by (simp_all add: demo_encoders_def str_eval)
  from unseen_key_global_mean [of demo_encoders 216419] k216419
  have e: "encode_sku demo_encoders 216419 = 22" by auto
  have t': "''month'' \<in> set (time_feature_names demo_config) \<and>
           demo_features 2 ''month'' = Some (PyInt 2) \<and>
           time_encoding_dicts demo_encoders ''month'' = Some ?d"
    by (simp add: demo_config_def time_feature_names_def demo_features_def demo_encoders_def)
  have t2: "?d (KStr (py_str demo_lib (PyInt 2))) = None" "?d (as_key (PyInt 2)) = Some 17"
    by (simp_all add: str_eval)
  from unseen_key_global_mean [of demo_encoders 7 "''month''" demo_config
      "demo_features 2" "PyInt 2" ?d demo_lib] t' t2
  have f: "encode_time_features demo_lib demo_encoders demo_config (demo_features 2) ''month''
             = Some 17" by auto
  from a b c d e f s7 k7 t gm s8095 k216419 show ?thesis by simp
qed

text \<open>
  C10. When the table holds the string form of a key, the value stored under the string
  form is the encoding, whatever the table holds under the native form; the value under
  the native form is the encoding only when the string form is absent.
\<close>

theorem string_key_preferred:
  "(store_encoding_dict enc (KStr (str_int k)) = Some v \<longrightarrow> encode_store enc k = v) \<and>
   (store_encoding_dict enc (KStr (str_int k)) = None \<and>
    store_encoding_dict enc (KNum (of_int k)) = Some w \<longrightarrow> encode_store enc k = w) \<and>
   (sku_encoding_dict enc (KStr (str_int k)) = Some v \<longrightarrow> encode_sku enc k = v) \<and>
   (sku_encoding_dict enc (KStr (str_int k)) = None \<and>
    sku_encoding_dict enc (KNum (of_int k)) = Some w \<longrightarrow> encode_sku enc k = w) \<and>
   (f \<in> set (time_feature_names cfg) \<and> features f = Some x \<and>
    time_encoding_dicts enc f = Some d \<longrightarrow>
      (d (KStr (py_str lib x)) = Some v \<longrightarrow>
         encode_time_features lib enc cfg features f = Some v) \<and>
      (d (KStr (py_str lib x)) = None \<and> d (as_key x) = Some w \<longrightarrow>
         encode_time_features lib enc cfg features f = Some w))"
  by (simp add: encode_store_lookup encode_sku_lookup encode_time_features_at
      lookup_or_mean_str lookup_or_mean_native)

theorem string_key_preferred_witness:
  "store_encoding_dict demo_encoders (KStr (str_int 8091)) = Some 35 \<and>
   store_encoding_dict demo_encoders (KNum (of_int 8091)) = Some 99 \<and>
   encode_store demo_encoders 8091 = 35 \<and>
   store_encoding_dict demo_encoders (KStr (str_int 8095)) = None \<and>
   store_encoding_dict demo_encoders (KNum (of_int 8095)) = Some 42 \<and>
   encode_store demo_encoders 8095 = 42 \<and>
   sku_encoding_dict demo_encoders (KStr (str_int 216418)) = Some 20 \<and>
   sku_encoding_dict demo_encoders (KNum (of_int 216418)) = Some 21 \<and>
   encode_sku demo_encoders 216418 = 20 \<and>
   sku_encoding_dict demo_encoders (KStr (str_int 216419)) = None \<and>
   sku_encoding_dict demo_encoders (KNum (of_int 216419)) = Some 22 \<and>
   encode_sku demo_encoders 216419 = 22 \<and>
   encode_time_features demo_lib demo_encoders demo_config (demo_features 1) ''month'' = Some 15 \<and>
   encode_time_features demo_lib demo_encoders demo_config (demo_features 2) ''month'' = Some 17"
proof -
  let ?d = "[KStr ''1'' \<mapsto> 15, KNum 1 \<mapsto> 16, KNum 2 \<mapsto> (17::real)]"
  have s1: "store_encoding_dict demo_encoders (KStr (str_int 8091)) = Some 35"
    "store_encoding_dict demo_encoders (KNum (of_int 8091)) = Some 99"
    "sku_encoding_dict demo_encoders (KStr (str_int 216418)) = Some 20"
    "sku_encoding_dict demo_encoders (KNum (of_int 216418)) = Some 21"
    by (simp_all add: demo_encoders_def str_eval)
  have s2: "store_encoding_dict demo_encoders (KStr (str_int 8095)) = None"
    "store_encoding_dict demo_encoders (KNum (of_int 8095)) = Some 42"
    "sku_encoding_dict demo_encoders (KStr (str_int 216419)) = None"
    "sku_encoding_dict demo_encoders (KNum (of_int 216419)) = Some 22"
    by (simp_all add: demo_encoders_def str_eval)
  have t1: "''month'' \<in> set (time_feature_names demo_config)"
    "demo_features 1 ''month'' = Some (PyInt 1)"
    "demo_features 2 ''month'' = Some (PyInt 2)"
    "time_encoding_dicts demo_encoders ''month'' = Some ?d"
    by (simp_all add: demo_config_def time_feature_names_def demo_features_def demo_encoders_def)
  have d1: "?d (KStr (py_str demo_lib (PyInt 1))) = Some 15"
    "?d (KStr (py_str demo_lib (PyInt 2))) = None" "?d (as_key (PyInt 2)) = Some 17"
    by (simp_all add: str_eval)
  from string_key_preferred [of demo_encoders 8091 35 99] s1
  have a: "encode_store demo_encoders 8091 = 35" by blast
  from string_key_preferred [of demo_encoders 8095 35 42] s2
  have b: "encode_store demo_encoders 8095 = 42" by blast
  from string_key_preferred [of demo_encoders 216418 20 21] s1
  have c: "encode_sku demo_encoders 216418 = 20" by blast
  from string_key_preferred [of demo_encoders 216419 20 22] s2
  have d: "encode_sku demo_encoders 216419 = 22" by blast
  from string_key_preferred [of demo_encoders 0 15 0 "''month''" demo_config
      "demo_features 1" "PyInt 1" ?d demo_lib] t1 d1
  have e: "encode_time_features demo_lib demo_encoders demo_config (demo_features 1) ''month''
             = Some 15" by blast
  from string_key_preferred [of demo_encoders 0 15 17 "''month''" demo_config
      "demo_features 2" "PyInt 2" ?d demo_lib] t1 d1
  have f: "encode_time_features demo_lib demo_encoders demo_config (demo_features 2) ''month''
             = Some 17" by blast
  from a b c d e f s1 s2 show ?thesis by simp
qed




section \<open>Properties of the data service\<close>

lemma fold_max_Max: "fold max xs (x::real) = Max (insert x (set xs))"
proof (induction xs arbitrary: x)
  case Nil
  then show ?case by simp
next
  case (Cons y ys)
  have "Max (insert (max y x) (set ys)) = Max (insert x (insert y (set ys)))"
    by (cases "set ys = {}") (auto simp: Max_insert max.assoc max.commute max.left_commute)
  with Cons show ?case by simp
qed

lemma fold_min_Min: "fold min xs (x::real) = Min (insert x (set xs))"
proof (induction xs arbitrary: x)
  case Nil
  then show ?case by simp
next
  case (Cons y ys)
  have "Min (insert (min y x) (set ys)) = Min (insert x (insert y (set ys)))"
    by (cases "set ys = {}") (auto simp: Min_insert min.assoc min.commute min.left_commute)
  with Cons show ?case by simp
qed

lemma series_max_Max: "xs \<noteq> [] \<Longrightarrow> series_max xs = Max (set xs)"
  by (cases xs) (simp_all add: series_max_def fold_max_Max)

lemma series_min_Min: "xs \<noteq> [] \<Longrightarrow> series_min xs = Min (set xs)"
  by (cases xs) (simp_all add: series_min_def fold_min_Min)

lemma get_store_dept_stats_history:
  "get_store_dept_stats train_df s d =
     (if history train_df s d = [] then
        \<lparr>st_max = 0, st_min = 0, st_mean = 0, st_median = 0, st_std = 0\<rparr>
      else \<lparr>st_max = series_max (history train_df s d),
            st_min = series_min (history train_df s d),
            st_mean = series_mean (history train_df s d),
            st_median = series_median (history train_df s d),
            st_std = (if length (history train_df s d) > 1
                      then series_std (history train_df s d) else 0)\<rparr>)"
  by (simp add: get_store_dept_stats_def history_def Let_def)

lemma sum_sq_nonneg: "0 \<le> sum_list (map (\<lambda>x. (x - m)\<^sup>2) (xs::real list))"
  by (induction xs) simp_all

text \<open>
  C6 (as amended). For a (store, department) pair with history the statistics are the
  maximum, the minimum, the arithmetic mean and the median of the pair's weekly sales, and
  the standard deviation is the sample standard deviation: its square times \<open>N - 1\<close> is
  the sum of the squared deviations from the mean. It is zero when the pair has fewer than
  two records, and all five statistics are zero when the pair has no history.
\<close>

theorem store_dept_stats_sample_std:
  "(history train_df s d = [] \<longrightarrow>
      get_store_dept_stats train_df s d =
        \<lparr>st_max = 0, st_min = 0, st_mean = 0, st_median = 0, st_std = 0\<rparr>) \<and>
   (history train_df s d \<noteq> [] \<longrightarrow>
      st_max (get_store_dept_stats train_df s d) = Max (set (history train_df s d)) \<and>
      st_min (get_store_dept_stats train_df s d) = Min (set (history train_df s d)) \<and>
      st_mean (get_store_dept_stats train_df s d) * real (length (history train_df s d)) =
        sum_list (history train_df s d) \<and>
      st_median (get_store_dept_stats train_df s d) =
        (let sorted_sales = sort (history train_df s d); n = length (history train_df s d)
         in if odd n then sorted_sales ! (n div 2)
            else (sorted_sales ! (n div 2 - 1) + sorted_sales ! (n div 2)) / 2)) \<and>
   (length (history train_df s d) < 2 \<longrightarrow> st_std (get_store_dept_stats train_df s d) = 0) \<and>
   (2 \<le> length (history train_df s d) \<longrightarrow>
      0 \<le> st_std (get_store_dept_stats train_df s d) \<and>
      (st_std (get_store_dept_stats train_df s d))\<^sup>2 * (real (length (history train_df s d)) - 1) =
        (\<Sum>x\<leftarrow>history train_df s d. (x - st_mean (get_store_dept_stats train_df s d))\<^sup>2))"
proof (intro conjI impI)
  let ?h = "history train_df s d"
  let ?r = "get_store_dept_stats train_df s d"
  show "?r = \<lparr>st_max = 0, st_min = 0, st_mean = 0, st_median = 0, st_std = 0\<rparr>" if "?h = []"
    using that by (simp add: get_store_dept_stats_history)
  show "st_max ?r = Max (set ?h)" if "?h \<noteq> []"
    using that by (simp add: get_store_dept_stats_history series_max_Max)
  show "st_min ?r = Min (set ?h)" if "?h \<noteq> []"
    using that by (simp add: get_store_dept_stats_history series_min_Min)
  show "st_mean ?r * real (length ?h) = sum_list ?h" if "?h \<noteq> []"
    using that by (simp add: get_store_dept_stats_history series_mean_def)
  show "st_median ?r =
        (let sorted_sales = sort ?h; n = length ?h
         in if odd n then sorted_sales ! (n div 2)
            else (sorted_sales ! (n div 2 - 1) + sorted_sales ! (n div 2)) / 2)" if "?h \<noteq> []"
    using that by (simp add: get_store_dept_stats_history series_median_def)
  show "st_std ?r = 0" if "length ?h < 2"
    using that by (simp add: get_store_dept_stats_history Let_def)
  show "0 \<le> st_std ?r" if "2 \<le> length ?h"
    using that by (auto simp: get_store_dept_stats_history Let_def series_std_def sum_sq_nonneg)
  show "(st_std ?r)\<^sup>2 * (real (length ?h) - 1) = (\<Sum>x\<leftarrow>?h. (x - st_mean ?r)\<^sup>2)"
    if "2 \<le> length ?h"
  proof -
    from that have ne: "?h \<noteq> []" and n1: "real (length ?h) - 1 > 0" by auto
    have std: "st_std ?r = series_std ?h" and mean: "st_mean ?r = series_mean ?h"
      using that ne by (simp_all add: get_store_dept_stats_history Let_def)
    have "0 \<le> (\<Sum>x\<leftarrow>?h. (x - series_mean ?h)\<^sup>2) / (real (length ?h) - 1)"
      using n1 by (simp add: sum_sq_nonneg)
    then have "(series_std ?h)\<^sup>2 = (\<Sum>x\<leftarrow>?h. (x - series_mean ?h)\<^sup>2) / (real (length ?h) - 1)"
      by (simp add: series_std_def)
    with n1 show ?thesis by (simp add: std mean)
  qed
qed

lemma history_demo_1_1: "history demo_train_df 1 1 = [0, 2]"
  by (simp add: history_def demo_train_df_def)

theorem store_dept_stats_sample_std_witness:
  "history demo_train_df 1 1 \<noteq> [] \<and> 2 \<le> length (history demo_train_df 1 1) \<and>
   st_max (get_store_dept_stats demo_train_df 1 1) = 2 \<and>
   st_min (get_store_dept_stats demo_train_df 1 1) = 0 \<and>
   st_mean (get_store_dept_stats demo_train_df 1 1) = 1 \<and>
   st_median (get_store_dept_stats demo_train_df 1 1) = 1 \<and>
   (st_std (get_store_dept_stats demo_train_df 1 1))\<^sup>2 = 2 \<and>
   history demo_train_df 3 1 = [] \<and>
   get_store_dept_stats demo_train_df 3 1 =
     \<lparr>st_max = 0, st_min = 0, st_mean = 0, st_median = 0, st_std = 0\<rparr> \<and>
   length (history demo_train_df 2 1) < 2 \<and>
   st_std (get_store_dept_stats demo_train_df 2 1) = 0"
proof -
  have h3: "history demo_train_df 3 1 = []" and h2: "history demo_train_df 2 1 = [7]"
    by (simp_all add: history_def demo_train_df_def)
  note t = store_dept_stats_sample_std [of demo_train_df 1 1]
  from t have mx: "st_max (get_store_dept_stats demo_train_df 1 1) = 2"
    and mn: "st_min (get_store_dept_stats demo_train_df 1 1) = 0"
    and me: "st_mean (get_store_dept_stats demo_train_df 1 1) = 1"
    by (simp_all add: history_demo_1_1)
  from t have md: "st_median (get_store_dept_stats demo_train_df 1 1) = 1"
    by (simp add: history_demo_1_1)
  from t have sd: "(st_std (get_store_dept_stats demo_train_df 1 1))\<^sup>2 = 2"
    by (simp add: history_demo_1_1 me)
  from store_dept_stats_sample_std [of demo_train_df 3 1] h3
  have z: "get_store_dept_stats demo_train_df 3 1 =
     \<lparr>st_max = 0, st_min = 0, st_mean = 0, st_median = 0, st_std = 0\<rparr>" by simp
  from store_dept_stats_sample_std [of demo_train_df 2 1] h2
  have o: "st_std (get_store_dept_stats demo_train_df 2 1) = 0" by simp
  from mx mn me md sd z o h3 h2 show ?thesis by (simp add: history_demo_1_1)
qed

text \<open>
  C6 as stated fails: for the two weekly sales 0 and 2 the code returns the standard
  deviation \<open>sqrt 2\<close>, the population standard deviation is 1.
\<close>

theorem store_dept_stats_population_std_counterexample:
  "st_std (get_store_dept_stats demo_train_df 1 1) = sqrt 2 \<and>
   population_std (history demo_train_df 1 1) = 1 \<and>
   st_std (get_store_dept_stats demo_train_df 1 1) \<noteq> population_std (history demo_train_df 1 1)"
proof -
  have a: "st_std (get_store_dept_stats demo_train_df 1 1) = sqrt 2"
    by (simp add: get_store_dept_stats_history history_demo_1_1 series_std_def series_mean_def)
  have b: "population_std (history demo_train_df 1 1) = 1"
    by (simp add: history_demo_1_1 population_std_def series_mean_def)
  have "sqrt 2 \<noteq> (1::real)" by simp
  with a b show ?thesis by simp
qed

lemma fold_min_Min_int: "fold min xs (x::int) = Min (insert x (set xs))"
proof (induction xs arbitrary: x)
  case Nil
  then show ?case by simp
next
  case (Cons y ys)
  have "Min (insert (min y x) (set ys)) = Min (insert x (insert y (set ys)))"
    by (cases "set ys = {}") (auto simp: Min_insert min.assoc min.commute min.left_commute)
  with Cons show ?case by simp
qed

lemma takeWhile_first_occurrence:
  "x \<in> set xs \<Longrightarrow>
     length (takeWhile (\<lambda>y. y \<noteq> x) xs) < length xs \<and>
     xs ! length (takeWhile (\<lambda>y. y \<noteq> x) xs) = x \<and>
     (\<forall>i < length (takeWhile (\<lambda>y. y \<noteq> x) xs). xs ! i \<noteq> x)"
proof (induction xs)
  case Nil
  then show ?case by simp
next
  case (Cons a xs)
  show ?case
  proof (cases "a = x")
    case True
    then show ?thesis by simp
  next
    case False
    with Cons.prems have "x \<in> set xs" by simp
    with Cons.IH False show ?thesis by (auto simp: nth_Cons split: nat.splits)
  qed
qed

lemma idxmin_first_min:
  assumes "xs \<noteq> []"
  shows "idxmin xs < length xs \<and> xs ! idxmin xs = Min (set xs) \<and>
         (\<forall>i < idxmin xs. xs ! i \<noteq> Min (set xs))"
proof -
  from assms have m: "fold min (tl xs) (hd xs) = Min (set xs)"
    by (cases xs) (simp_all add: fold_min_Min_int)
  have "Min (set xs) \<in> set xs" using assms by simp
  from takeWhile_first_occurrence [OF this] show ?thesis
    by (simp add: idxmin_def m)
qed

lemma hd_filter_first:
  assumes "filter P xs \<noteq> []"
  shows "\<exists>pre post. xs = pre @ hd (filter P xs) # post \<and> P (hd (filter P xs)) \<and>
                    (\<forall>x\<in>set pre. \<not> P x)"
  using assms
proof (induction xs)
  case Nil
  then show ?case by simp
next
  case (Cons a xs)
  show ?case
  proof (cases "P a")
    case True
    then have "a # xs = [] @ hd (filter P (a # xs)) # xs" by simp
    with True show ?thesis by (metis empty_iff empty_set filter.simps(2) list.sel(1))
  next
    case False
    with Cons obtain pre post where
      "xs = pre @ hd (filter P xs) # post" "P (hd (filter P xs))" "\<forall>x\<in>set pre. \<not> P x"
      by auto
    with False have "a # xs = (a # pre) @ hd (filter P (a # xs)) # post \<and>
        P (hd (filter P (a # xs))) \<and> (\<forall>x\<in>set (a # pre). \<not> P x)"
      by simp
    then show ?thesis by blast
  qed
qed

lemma nearest_date_rows:
  assumes "to_datetime lib date = Some target"
  shows
  "(store_rows features_df store_id = [] \<longrightarrow>
      get_nearest_date_features lib features_df store_id date =
        Inl (ValueError (NoFeaturesFound store_id))) \<and>
   ((\<exists>r \<in> set (store_rows features_df store_id). date_distance target r = 0) \<longrightarrow>
      (\<exists>pre r post. store_rows features_df store_id = pre @ r # post \<and>
         timestamp (fr_Date r) = timestamp target \<and>
         (\<forall>x \<in> set pre. timestamp (fr_Date x) \<noteq> timestamp target) \<and>
         get_nearest_date_features lib features_df store_id date =
           Inr (extract_features features_df r))) \<and>
   (store_rows features_df store_id \<noteq> [] \<and>
    (\<forall>r \<in> set (store_rows features_df store_id). date_distance target r \<noteq> 0) \<longrightarrow>
      (\<exists>pre r post. store_rows features_df store_id = pre @ r # post \<and>
         (\<forall>x \<in> set (store_rows features_df store_id).
            date_distance target r \<le> date_distance target x) \<and>
         (\<forall>x \<in> set pre. date_distance target r < date_distance target x) \<and>
         get_nearest_date_features lib features_df store_id date =
           Inr (extract_features features_df r)))"
proof (intro conjI impI)
  let ?sf = "store_rows features_df store_id"
  let ?P = "\<lambda>r. timestamp (fr_Date r) = timestamp target"
  show "get_nearest_date_features lib features_df store_id date =
        Inl (ValueError (NoFeaturesFound store_id))" if "?sf = []"
    using that assms by (simp add: get_nearest_date_features_def store_rows_def)
  show "\<exists>pre r post. ?sf = pre @ r # post \<and> ?P r \<and> (\<forall>x \<in> set pre. \<not> ?P x) \<and>
         get_nearest_date_features lib features_df store_id date =
           Inr (extract_features features_df r)"
    if "\<exists>r \<in> set ?sf. date_distance target r = 0"
  proof -
    from that have ne: "filter ?P ?sf \<noteq> []"
      by (auto simp: date_distance_def filter_empty_conv)
    then have sfne: "?sf \<noteq> []" by auto
    from hd_filter_first [OF ne] obtain pre post where
      sp: "?sf = pre @ hd (filter ?P ?sf) # post" "?P (hd (filter ?P ?sf))"
        "\<forall>x\<in>set pre. \<not> ?P x" by blast
    have "get_nearest_date_features lib features_df store_id date =
           Inr (extract_features features_df (hd (filter ?P ?sf)))"
      using ne sfne assms
      by (simp add: get_nearest_date_features_def store_rows_def Let_def)
    with sp show ?thesis by blast
  qed
  show "\<exists>pre r post. ?sf = pre @ r # post \<and>
         (\<forall>x \<in> set ?sf. date_distance target r \<le> date_distance target x) \<and>
         (\<forall>x \<in> set pre. date_distance target r < date_distance target x) \<and>
         get_nearest_date_features lib features_df store_id date =
           Inr (extract_features features_df r)"
    if h: "?sf \<noteq> [] \<and> (\<forall>r \<in> set ?sf. date_distance target r \<noteq> 0)"
  proof -
    let ?dd = "map (date_distance target) ?sf"
    let ?i = "idxmin ?dd"
    from h have sfne: "?sf \<noteq> []" and noex: "filter ?P ?sf = []"
      by (auto simp: date_distance_def filter_empty_conv)
    then have ddne: "?dd \<noteq> []" by simp
    from idxmin_first_min [OF ddne] have
      i': "?i < length ?dd" and mn: "?dd ! ?i = Min (set ?dd)" and
      fst: "\<forall>j < ?i. ?dd ! j \<noteq> Min (set ?dd)" by blast+
    from i' have i: "?i < length ?sf" by simp
    let ?r = "?sf ! ?i"
    have split: "?sf = take ?i ?sf @ ?r # drop (Suc ?i) ?sf"
      using i by (simp add: id_take_nth_drop)
    have rmin: "date_distance target ?r = Min (set ?dd)"
      using mn i by simp
    have le: "\<forall>x \<in> set ?sf. date_distance target ?r \<le> date_distance target x"
      unfolding rmin by auto
    have lt: "\<forall>x \<in> set (take ?i ?sf). date_distance target ?r < date_distance target x"
    proof
      fix x assume "x \<in> set (take ?i ?sf)"
      then obtain j where j: "j < ?i" "x = ?sf ! j"
        using i by (auto simp: in_set_conv_nth)
      with fst i have ne: "date_distance target x \<noteq> date_distance target ?r"
        unfolding rmin by auto
      have "x \<in> set ?sf" using j i by simp
      with le have "date_distance target ?r \<le> date_distance target x" by blast
      with ne show "date_distance target ?r < date_distance target x" by linarith
    qed
    have dd_eq: "(\<lambda>r. \<bar>timestamp (fr_Date r) - timestamp target\<bar>) = date_distance target"
      by (simp add: date_distance_def fun_eq_iff)
    have "get_nearest_date_features lib features_df store_id date =
           Inr (extract_features features_df ?r)"
      using sfne noex assms dd_eq
      by (simp add: get_nearest_date_features_def store_rows_def Let_def)
    with split le lt show ?thesis by blast
  qed
qed

lemma carries_extract_features: "carries r (extract_features features_df r)"
  by (simp add: carries_def extract_features_def split: option.splits)

lemma two_rows_split:
  "[a, b] = pre @ r # post \<longleftrightarrow>
     (pre = [] \<and> r = a \<and> post = [b]) \<or> (pre = [a] \<and> r = b \<and> post = [])"
  by (cases pre; cases "tl pre") (auto simp: Cons_eq_append_conv)

lemma store_rows_demo:
  "store_rows demo_features_df 1 = [row_oct_26, row_nov_09]"
  "store_rows demo_features_df 9 = []"
  by (simp_all add: store_rows_def demo_features_df_def row_oct_26_def row_nov_09_def
      row_store_2_def)

lemma date_distance_demo:
  "date_distance date_2012_11_02 row_oct_26 = 604800"
  "date_distance date_2012_11_02 row_nov_09 = 604800"
  "date_distance date_2012_11_09 row_oct_26 = 1209600"
  "date_distance date_2012_11_09 row_nov_09 = 0"
  by (simp_all add: date_distance_def row_oct_26_def row_nov_09_def date_2012_10_26_def
      date_2012_11_02_def date_2012_11_09_def)

text \<open>
  C4. For a request whose date parses: when the store has no feature record the lookup
  fails with the no-features \<^verbatim>\<open>ValueError\<close>; when the store has a record at the requested
  date, the first such record in row order is returned; otherwise the record returned has
  the least distance from the requested date among the store's records, and every record
  before it in row order is strictly farther. The returned features carry the chosen
  record: every value the record has is returned unchanged.
\<close>

theorem nearest_date_lookup:
  assumes "to_datetime lib date = Some target"
  shows
  "(store_rows features_df store_id = [] \<longrightarrow>
      get_nearest_date_features lib features_df store_id date =
        Inl (ValueError (NoFeaturesFound store_id))) \<and>
   ((\<exists>r \<in> set (store_rows features_df store_id). date_distance target r = 0) \<longrightarrow>
      (\<exists>pre r post. store_rows features_df store_id = pre @ r # post \<and>
         timestamp (fr_Date r) = timestamp target \<and>
         (\<forall>x \<in> set pre. timestamp (fr_Date x) \<noteq> timestamp target) \<and>
         get_nearest_date_features lib features_df store_id date =
           Inr (extract_features features_df r) \<and>
         carries r (extract_features features_df r))) \<and>
   (store_rows features_df store_id \<noteq> [] \<and>
    (\<forall>r \<in> set (store_rows features_df store_id). date_distance target r \<noteq> 0) \<longrightarrow>
      (\<exists>pre r post. store_rows features_df store_id = pre @ r # post \<and>
         (\<forall>x \<in> set (store_rows features_df store_id).
            date_distance target r \<le> date_distance target x) \<and>
         (\<forall>x \<in> set pre. date_distance target r < date_distance target x) \<and>
         get_nearest_date_features lib features_df store_id date =
           Inr (extract_features features_df r) \<and>
         carries r (extract_features features_df r)))"
  using nearest_date_rows [OF assms, of features_df store_id]
  by (simp add: carries_extract_features)

theorem nearest_date_lookup_witness:
  "to_datetime demo_lib ''2012-11-09'' = Some date_2012_11_09 \<and>
   to_datetime demo_lib ''2012-11-02'' = Some date_2012_11_02 \<and>
   store_rows demo_features_df 9 = [] \<and>
   get_nearest_date_features demo_lib demo_features_df 9 ''2012-11-02'' =
     Inl (ValueError (NoFeaturesFound 9)) \<and>
   store_rows demo_features_df 1 = [row_oct_26, row_nov_09] \<and>
   date_distance date_2012_11_09 row_nov_09 = 0 \<and>
   get_nearest_date_features demo_lib demo_features_df 1 ''2012-11-09'' =
     Inr (extract_features demo_features_df row_nov_09) \<and>
   date_distance date_2012_11_02 row_oct_26 = 604800 \<and>
   date_distance date_2012_11_02 row_nov_09 = 604800 \<and>
   get_nearest_date_features demo_lib demo_features_df 1 ''2012-11-02'' =
     Inr (extract_features demo_features_df row_oct_26)"
proof -
  have p9: "to_datetime demo_lib ''2012-11-09'' = Some date_2012_11_09"
    and p2: "to_datetime demo_lib ''2012-11-02'' = Some date_2012_11_02"
    by (simp_all add: demo_lib_def)
  from nearest_date_lookup [OF p2, of demo_features_df 9]
  have a: "get_nearest_date_features demo_lib demo_features_df 9 ''2012-11-02'' =
     Inl (ValueError (NoFeaturesFound 9))"
    by (simp add: store_rows_demo)
  have ts: "timestamp (fr_Date row_oct_26) \<noteq> timestamp date_2012_11_09"
    by (simp add: row_oct_26_def date_2012_10_26_def date_2012_11_09_def)
  from nearest_date_lookup [OF p9, of demo_features_df 1]
  have "\<exists>pre r post. [row_oct_26, row_nov_09] = pre @ r # post \<and>
         timestamp (fr_Date r) = timestamp date_2012_11_09 \<and>
         get_nearest_date_features demo_lib demo_features_df 1 ''2012-11-09'' =
           Inr (extract_features demo_features_df r)"
    by (simp add: store_rows_demo date_distance_demo) blast
  with ts have b: "get_nearest_date_features demo_lib demo_features_df 1 ''2012-11-09'' =
     Inr (extract_features demo_features_df row_nov_09)"
    unfolding two_rows_split by auto
  from nearest_date_lookup [OF p2, of demo_features_df 1]
  have "\<exists>pre r post. [row_oct_26, row_nov_09] = pre @ r # post \<and>
         (\<forall>x \<in> set pre. date_distance date_2012_11_02 r < date_distance date_2012_11_02 x) \<and>
         get_nearest_date_features demo_lib demo_features_df 1 ''2012-11-02'' =
           Inr (extract_features demo_features_df r)"
    by (simp add: store_rows_demo date_distance_demo) blast
  then have c: "get_nearest_date_features demo_lib demo_features_df 1 ''2012-11-02'' =
     Inr (extract_features demo_features_df row_oct_26)"
    unfolding two_rows_split by (auto simp: date_distance_demo)
  from p9 p2 a b c show ?thesis by (simp add: store_rows_demo date_distance_demo)
qed


section \<open>Properties of the one-hot expansion\<close>

subsection \<open>The decimal rendering of integers is injective\<close>

lemma digit_char_inj:
  assumes "a < 10" "b < 10" "digit_char a = digit_char b"
  shows "a = b"
proof -
  from assms(1) have a: "a \<in> {0, 1, 2, 3, 4, 5, 6, 7, 8, 9}" by auto
  from assms(2) have b: "b \<in> {0, 1, 2, 3, 4, 5, 6, 7, 8, 9}" by auto
  from a b assms(3) show ?thesis
    by (auto simp: digit_char_def)
qed

lemma digit_char_not_minus: "d < 10 \<Longrightarrow> digit_char d \<noteq> CHR ''-''"
proof -
  assume "d < 10"
  then have "d \<in> {0, 1, 2, 3, 4, 5, 6, 7, 8, 9}" by auto
  then show ?thesis by (auto simp: digit_char_def)
qed

lemma str_nat_nonempty: "str_nat n \<noteq> []"
  by (subst str_nat.simps) simp

lemma str_nat_length_ge2: "10 \<le> n \<Longrightarrow> 2 \<le> length (str_nat n)"
proof -
  assume "10 \<le> n"
  then have "str_nat n = str_nat (n div 10) @ [digit_char (n mod 10)]"
    by (subst str_nat.simps) simp
  moreover have "1 \<le> length (str_nat (n div 10))"
    using str_nat_nonempty [of "n div 10"] by (cases "str_nat (n div 10)") simp_all
  ultimately show ?thesis by simp
qed

lemma str_nat_no_minus: "CHR ''-'' \<notin> set (str_nat n)"
proof (induction n rule: str_nat.induct)
  case (1 n)
  show ?case
  proof (cases "n < 10")
    case True
    then show ?thesis
      using digit_char_not_minus [of n] by (subst str_nat.simps) auto
  next
    case False
    have "n mod 10 < 10" by simp
    then have "digit_char (n mod 10) \<noteq> CHR ''-''" by (rule digit_char_not_minus)
    with False 1 show ?thesis
      by (subst str_nat.simps) auto
  qed
qed

lemma str_nat_inj: "str_nat a = str_nat b \<Longrightarrow> a = b"
proof (induction a arbitrary: b rule: str_nat.induct)
  case (1 a)
  show ?case
  proof (cases "a < 10")
    case True
    then have sa: "str_nat a = [digit_char a]" by (subst str_nat.simps) simp
    show ?thesis
    proof (cases "b < 10")
      case b: True
      then have "str_nat b = [digit_char b]" by (subst str_nat.simps) simp
      with sa "1.prems" have "digit_char a = digit_char b" by simp
      with True b show ?thesis by (rule digit_char_inj)
    next
      case False
      then have "2 \<le> length (str_nat b)" by (simp add: str_nat_length_ge2)
      with sa "1.prems" show ?thesis by simp
    qed
  next
    case False
    then have sa: "str_nat a = str_nat (a div 10) @ [digit_char (a mod 10)]"
      by (subst str_nat.simps) simp
    show ?thesis
    proof (cases "b < 10")
      case True
      then have "str_nat b = [digit_char b]" by (subst str_nat.simps) simp
      moreover from False have "2 \<le> length (str_nat a)" by (simp add: str_nat_length_ge2)
      ultimately show ?thesis using "1.prems" by simp
    next
      case b: False
      then have "str_nat b = str_nat (b div 10) @ [digit_char (b mod 10)]"
        by (subst str_nat.simps) simp
      with sa "1.prems" have e: "str_nat (a div 10) = str_nat (b div 10)"
        and d: "digit_char (a mod 10) = digit_char (b mod 10)" by simp_all
      from "1.IH" [OF False e] have q: "a div 10 = b div 10" .
      have "a mod 10 < 10" "b mod 10 < 10" by simp_all
      from digit_char_inj [OF this d] have r: "a mod 10 = b mod 10" .
      from q r show ?thesis by (metis div_mult_mod_eq)
    qed
  qed
qed

lemma str_int_inj: "str_int a = str_int b \<Longrightarrow> a = b"
proof -
  assume e: "str_int a = str_int b"
  have hd_nat: "hd (str_nat n) \<noteq> CHR ''-''" for n
    using str_nat_no_minus [of n] str_nat_nonempty [of n] by (cases "str_nat n") auto
  show ?thesis
  proof (cases "a < 0")
    case True
    show ?thesis
    proof (cases "b < 0")
      case b: True
      with True e have "str_nat (nat (- a)) = str_nat (nat (- b))" by (simp add: str_int_def)
      then have "nat (- a) = nat (- b)" by (rule str_nat_inj)
      with True b show ?thesis by simp
    next
      case False
      with True e have "CHR ''-'' # str_nat (nat (- a)) = str_nat (nat b)"
        by (simp add: str_int_def)
      then have "hd (str_nat (nat b)) = CHR ''-''" by (metis list.sel(1))
      with hd_nat show ?thesis by blast
    qed
  next
    case False
    show ?thesis
    proof (cases "b < 0")
      case True
      with False e have "str_nat (nat a) = CHR ''-'' # str_nat (nat (- b))"
        by (simp add: str_int_def)
      then have "hd (str_nat (nat a)) = CHR ''-''" by (metis list.sel(1))
      with hd_nat show ?thesis by blast
    next
      case b: False
      with False e have "str_nat (nat a) = str_nat (nat b)" by (simp add: str_int_def)
      then have "nat a = nat b" by (rule str_nat_inj)
      with False b show ?thesis by simp
    qed
  qed
qed

subsection \<open>Indicator loops\<close>

lemma fold_indicators:
  assumes "df src = Some c" "\<forall>x \<in> set xs. nm x \<noteq> src"
  shows "\<exists>out. fold_err (\<lambda>x df. assign_indicator df src (nm x) (val x)) xs df = Inr out \<and>
           (\<forall>col. col \<notin> nm ` set xs \<longrightarrow> out col = df col) \<and>
           (inj_on nm (set xs) \<longrightarrow>
              (\<forall>x \<in> set xs. out (nm x) = Some (NumCell (if c = val x then 1 else 0))))"
  using assms
proof (induction xs arbitrary: df)
  case Nil
  then show ?case by simp
next
  case (Cons a xs)
  let ?df' = "df(nm a \<mapsto> NumCell (if c = val a then 1 else 0))"
  from Cons.prems have step: "assign_indicator df src (nm a) (val a) = Inr ?df'"
    by (simp add: assign_indicator_def)
  from Cons.prems have src': "?df' src = Some c" by auto
  from Cons.prems have "\<forall>x \<in> set xs. nm x \<noteq> src" by simp
  from Cons.IH [of ?df', OF src' this] obtain out where
    out: "fold_err (\<lambda>x df. assign_indicator df src (nm x) (val x)) xs ?df' = Inr out"
    and keep: "\<forall>col. col \<notin> nm ` set xs \<longrightarrow> out col = ?df' col"
    and ind: "inj_on nm (set xs) \<longrightarrow>
              (\<forall>x \<in> set xs. out (nm x) = Some (NumCell (if c = val x then 1 else 0)))"
    by blast
  have r: "fold_err (\<lambda>x df. assign_indicator df src (nm x) (val x)) (a # xs) df = Inr out"
    by (simp add: step out)
  have k: "\<forall>col. col \<notin> nm ` set (a # xs) \<longrightarrow> out col = df col"
    using keep by auto
  have i: "inj_on nm (set (a # xs)) \<longrightarrow>
      (\<forall>x \<in> set (a # xs). out (nm x) = Some (NumCell (if c = val x then 1 else 0)))"
  proof (intro impI ballI)
    fix x assume inj: "inj_on nm (set (a # xs))" and x: "x \<in> set (a # xs)"
    from inj have inj': "inj_on nm (set xs)" by (auto simp: inj_on_def)
    show "out (nm x) = Some (NumCell (if c = val x then 1 else 0))"
    proof (cases "x \<in> set xs")
      case True
      with ind inj' show ?thesis by blast
    next
      case False
      with x have xa: "x = a" by simp
      with False inj have "nm a \<notin> nm ` set xs" by (auto simp: inj_on_def)
      with keep have "out (nm a) = ?df' (nm a)" by blast
      with xa show ?thesis by simp
    qed
  qed
  from r k i show ?case by blast
qed

lemma filter_eq_singleton:
  "distinct xs \<Longrightarrow> x0 \<in> set xs \<Longrightarrow> length (filter (\<lambda>x. x = x0) xs) = 1"
  by (induction xs) (auto simp: filter_empty_conv)

lemma one_hot_blockI:
  assumes inj: "inj_on nm (set xs)" and d: "distinct xs"
    and ind: "\<forall>x \<in> set xs. out (nm x) = Some (NumCell (if x = x0 then 1 else 0))"
    and x0: "x0 \<in> set xs"
  shows "one_hot_block out (map nm xs)"
proof -
  have dist: "distinct (map nm xs)" using inj d by (simp add: distinct_map)
  have "filter (\<lambda>c. out c = Some (NumCell 1)) (map nm xs) =
        map nm (filter (\<lambda>x. x = x0) xs)"
    using ind by (auto simp: filter_map comp_def split: if_splits
        intro!: arg_cong [where f = "map nm"] filter_cong)
  then have one: "length (filter (\<lambda>c. out c = Some (NumCell 1)) (map nm xs)) = 1"
    using filter_eq_singleton [OF d x0] by simp
  have all: "list_all (\<lambda>c. out c = Some (NumCell 1) \<or> out c = Some (NumCell 0)) (map nm xs)"
    using ind by (auto simp: list_all_iff)
  from dist one all show ?thesis by (simp add: one_hot_block_def)
qed


lemma inj_on_prefixed_str_int: "inj_on (\<lambda>n. p @ str_int n) A"
  by (auto simp: inj_on_def dest: str_int_inj)

text \<open>
  C7. For a frame whose store id is one of 1 to 45, whose department id occurs in the
  training history and whose store type is A, B or C, the one-hot expansion succeeds and
  in its result each of the three blocks (store, department, type) has distinct column
  names, exactly one column equal to 1 and all columns equal to 1 or 0; the column that
  is 1 is the one named after the frame's store, department and type.
\<close>

theorem one_hot_blocks:
  assumes store: "df ''Store'' = Some (NumCell (of_int s))" and s: "1 \<le> s" "s \<le> 45"
    and dept: "df ''Dept'' = Some (NumCell (of_int d))" and d: "d \<in> set (map tr_Dept train_df)"
    and type: "df ''Type'' = Some (StrCell t)" and t: "t \<in> {''A'', ''B'', ''C''}"
  shows "\<exists>out. one_hot_encode_price_features train_df df = Inr out \<and>
     one_hot_block out store_columns \<and> out (''Store_'' @ str_int s) = Some (NumCell 1) \<and>
     one_hot_block out (dept_columns train_df) \<and>
     out (''Dept_'' @ str_int d) = Some (NumCell 1) \<and>
     one_hot_block out type_columns \<and> out (''Type_'' @ t) = Some (NumCell 1)"
proof -
  let ?n1 = "\<lambda>n. ''Store_'' @ str_int n" and ?v1 = "\<lambda>n::int. NumCell (of_int n)"
  let ?n2 = "\<lambda>n. ''Dept_'' @ str_int n"
  let ?n3 = "\<lambda>x. ''Type_'' @ x" and ?v3 = "\<lambda>x. StrCell x"
  let ?stores = "[1..45] :: int list"
  let ?depts = "sort (remdups (map tr_Dept train_df))"
  let ?types = "[''A'', ''B'', ''C'']"
  have "\<forall>x \<in> set ?stores. ?n1 x \<noteq> ''Store''" by simp
  from fold_indicators [of df "''Store''" _ ?stores ?n1 ?v1, OF store this]
  obtain out1 where
    r1: "fold_err (\<lambda>x df. assign_indicator df ''Store'' (?n1 x) (?v1 x)) ?stores df = Inr out1"
    and k1: "\<forall>col. col \<notin> ?n1 ` set ?stores \<longrightarrow> out1 col = df col"
    and i1: "\<forall>x \<in> set ?stores. out1 (?n1 x) = Some (NumCell (if s = x then 1 else 0))"
    using inj_on_prefixed_str_int [of "''Store_''" "set ?stores"] by auto
  have "''Dept'' \<notin> ?n1 ` set ?stores" by auto
  with k1 have "out1 ''Dept'' = df ''Dept''" by blast
  with dept have dept1: "out1 ''Dept'' = Some (NumCell (of_int d))" by simp
  have "\<forall>x \<in> set ?depts. ?n2 x \<noteq> ''Dept''" by simp
  from fold_indicators [of out1 "''Dept''" _ ?depts ?n2 ?v1, OF dept1 this]
  obtain out2 where
    r2: "fold_err (\<lambda>x df. assign_indicator df ''Dept'' (?n2 x) (?v1 x)) ?depts out1 = Inr out2"
    and k2: "\<forall>col. col \<notin> ?n2 ` set ?depts \<longrightarrow> out2 col = out1 col"
    and i2: "\<forall>x \<in> set ?depts. out2 (?n2 x) = Some (NumCell (if d = x then 1 else 0))"
    using inj_on_prefixed_str_int [of "''Dept_''" "set ?depts"] by auto
  have "''Type'' \<notin> ?n1 ` set ?stores" "''Type'' \<notin> ?n2 ` set ?depts" by auto
  with k1 k2 have "out2 ''Type'' = df ''Type''" by metis
  with type have type2: "out2 ''Type'' = Some (StrCell t)" by simp
  have "\<forall>x \<in> set ?types. ?n3 x \<noteq> ''Type''" by simp
  from fold_indicators [of out2 "''Type''" _ ?types ?n3 ?v3, OF type2 this]
  obtain out where
    r3: "fold_err (\<lambda>x df. assign_indicator df ''Type'' (?n3 x) (?v3 x)) ?types out2 = Inr out"
    and k3: "\<forall>col. col \<notin> ?n3 ` set ?types \<longrightarrow> out col = out2 col"
    and i3: "\<forall>x \<in> set ?types. out (?n3 x) = Some (NumCell (if t = x then 1 else 0))"
    by (auto simp: inj_on_def)
  have res: "one_hot_encode_price_features train_df df = Inr out"
    by (simp only: one_hot_encode_price_features_def r1 r2 r3 sum.case Let_def)
  have s_in: "s \<in> set ?stores" using s by simp
  have d_in: "d \<in> set ?depts" using d by simp
  have t_in: "t \<in> set ?types" using t by auto
  have o1: "\<forall>x \<in> set ?stores. out (?n1 x) = Some (NumCell (if x = s then 1 else 0))"
  proof
    fix x assume x: "x \<in> set ?stores"
    have "?n1 x \<notin> ?n3 ` set ?types" "?n1 x \<notin> ?n2 ` set ?depts" by auto
    with k3 k2 have "out (?n1 x) = out1 (?n1 x)" by metis
    with i1 x show "out (?n1 x) = Some (NumCell (if x = s then 1 else 0))" by auto
  qed
  have o2: "\<forall>x \<in> set ?depts. out (?n2 x) = Some (NumCell (if x = d then 1 else 0))"
  proof
    fix x assume x: "x \<in> set ?depts"
    have "?n2 x \<notin> ?n3 ` set ?types" by auto
    with k3 have "out (?n2 x) = out2 (?n2 x)" by metis
    with i2 x show "out (?n2 x) = Some (NumCell (if x = d then 1 else 0))" by auto
  qed
  have o3: "\<forall>x \<in> set ?types. out (?n3 x) = Some (NumCell (if x = t then 1 else 0))"
    using i3 by auto
  have b1: "one_hot_block out store_columns"
    unfolding store_columns_def
    by (rule one_hot_blockI [of ?n1 ?stores out s, OF inj_on_prefixed_str_int _ o1 s_in]) simp
  have b2: "one_hot_block out (dept_columns train_df)"
    unfolding dept_columns_def
    by (rule one_hot_blockI [of ?n2 ?depts out d, OF inj_on_prefixed_str_int _ o2 d_in]) simp
  have b3: "one_hot_block out type_columns"
    unfolding type_columns_def
    by (rule one_hot_blockI [of ?n3 ?types out t, OF _ _ o3 t_in]) (simp_all add: inj_on_def)
  from o1 s_in have h1: "out (''Store_'' @ str_int s) = Some (NumCell 1)" by auto
  from o2 d_in have h2: "out (''Dept_'' @ str_int d) = Some (NumCell 1)" by auto
  from o3 t_in have h3: "out (''Type_'' @ t) = Some (NumCell 1)" by auto
  from res b1 b2 b3 h1 h2 h3 show ?thesis by blast
qed

theorem one_hot_blocks_witness:
  "demo_frame ''Store'' = Some (NumCell (of_int 1)) \<and>
   demo_frame ''Dept'' = Some (NumCell (of_int 3)) \<and>
   3 \<in> set (map tr_Dept demo_train_df) \<and>
   demo_frame ''Type'' = Some (StrCell ''A'') \<and>
   \<not> isl (one_hot_encode_price_features demo_train_df demo_frame) \<and>
   one_hot_block (projr (one_hot_encode_price_features demo_train_df demo_frame))
     store_columns \<and>
   one_hot_block (projr (one_hot_encode_price_features demo_train_df demo_frame))
     (dept_columns demo_train_df) \<and>
   one_hot_block (projr (one_hot_encode_price_features demo_train_df demo_frame))
     type_columns \<and>
   projr (one_hot_encode_price_features demo_train_df demo_frame) ''Store_1''
     = Some (NumCell 1) \<and>
   projr (one_hot_encode_price_features demo_train_df demo_frame) ''Dept_3''
     = Some (NumCell 1) \<and>
   projr (one_hot_encode_price_features demo_train_df demo_frame) ''Type_A''
     = Some (NumCell 1)"
proof -
  have a: "demo_frame ''Store'' = Some (NumCell (of_int 1))"
    "demo_frame ''Dept'' = Some (NumCell (of_int 3))"
    "demo_frame ''Type'' = Some (StrCell ''A'')"
    by (simp_all add: demo_frame_def)
  have b: "3 \<in> set (map tr_Dept demo_train_df)" by (simp add: demo_train_df_def)
  have c: "''A'' \<in> {''A'', ''B'', ''C''}" "(1::int) \<le> 1" "(1::int) \<le> 45" by simp_all
  have n: "''Store_'' @ str_int 1 = ''Store_1''" "''Dept_'' @ str_int 3 = ''Dept_3''"
    by (simp_all add: str_eval)
  from one_hot_blocks [OF a(1) c(2) c(3) a(2) b a(3) c(1)] obtain out where
    "one_hot_encode_price_features demo_train_df demo_frame = Inr out"
    "one_hot_block out store_columns" "out (''Store_'' @ str_int 1) = Some (NumCell 1)"
    "one_hot_block out (dept_columns demo_train_df)"
    "out (''Dept_'' @ str_int 3) = Some (NumCell 1)"
    "one_hot_block out type_columns" "out (''Type_'' @ ''A'') = Some (NumCell 1)"
    by blast
  with a b n show ?thesis by simp
qed

section \<open>Properties of the prediction strategies\<close>

lemma feature_array_loop:
  "\<forall>col \<in> set cols. features col \<noteq> None \<Longrightarrow>
     fold_err (\<lambda>col feature_array.
                 case features col of
                   None \<Rightarrow> Inl (ValueError (MissingFeature col))
                 | Some v \<Rightarrow> Inr (feature_array @ [py_float v]))
       cols acc = Inr (acc @ map (\<lambda>col. py_float (the (features col))) cols)"
  by (induction cols arbitrary: acc) auto

lemma lightgbm_predict_loaded:
  assumes "loaded s" "config_dict s = Some cfg"
    "\<forall>col \<in> set (feature_columns cfg). features col \<noteq> None"
  shows "lightgbm_predict files features s =
     (Inr (sum_list (map (\<lambda>m. exp (m (feature_vector cfg features)) - 1) (models s)) /
           real (length (models s))), s)"
  using assms feature_array_loop [of "feature_columns cfg" features "[]"]
  by (simp add: lightgbm_predict_def lightgbm_ensure_loaded_def feature_vector_def)

lemma exp_gap: "(exp 2 - 1) / 2 \<noteq> exp 1 - (1::real)"
proof
  define e :: real where "e = exp 1"
  assume a: "(exp 2 - 1) / 2 = exp 1 - (1::real)"
  have "exp (2::real) = e * e"
    using exp_add [of "1::real" 1] by (simp add: e_def)
  with a have "(e * e - 1) / 2 = e - 1" by (simp add: e_def)
  then have "e * e - 1 = 2 * e - 2" by (simp add: field_simps)
  then have "(e - 1) * (e - 1) = 0" by (simp add: algebra_simps)
  then have "e = 1" by simp
  then show False by (simp add: e_def)
qed

lemma two_models_loaded_props:
  "loaded two_models_loaded" "config_dict two_models_loaded = Some demo_config"
  "models two_models_loaded = [booster_a, booster_b]"
  "\<forall>col \<in> set (feature_columns demo_config). demo_request col \<noteq> None"
  by (simp_all add: two_models_loaded_def demo_config_def demo_request_def)

text \<open>
  C1 (as amended). For a loaded strategy with N boosters (N at least 1) and features that
  contain every configured column, \<^verbatim>\<open>predict\<close> returns the arithmetic mean of the N
  back-transformed predictions \<open>exp x\<^sub>i - 1\<close>, where \<open>x\<^sub>i\<close> is the log-space output of
  booster \<open>i\<close> for the feature array, and leaves the strategy unchanged.
\<close>

theorem lightgbm_predict_mean_of_exp:
  assumes "loaded s" "config_dict s = Some cfg" "models s \<noteq> []"
    "\<forall>col \<in> set (feature_columns cfg). features col \<noteq> None"
  shows "lightgbm_predict files features s =
     (Inr (sum_list (map (\<lambda>m. exp (m (feature_vector cfg features)) - 1) (models s)) /
           real (length (models s))), s)"
  using assms by (simp add: lightgbm_predict_loaded)

theorem lightgbm_predict_mean_of_exp_witness:
  "loaded two_models_loaded \<and> models two_models_loaded \<noteq> [] \<and>
   map (\<lambda>m. m (feature_vector demo_config demo_request)) (models two_models_loaded) = [0, 2] \<and>
   lightgbm_predict two_model_files demo_request two_models_loaded =
     (Inr ((exp 2 - 1) / 2), two_models_loaded)"
proof -
  have ne: "models two_models_loaded \<noteq> []" by (simp add: two_models_loaded_props)
  from lightgbm_predict_mean_of_exp [OF two_models_loaded_props(1,2) ne
      two_models_loaded_props(4), of two_model_files]
  show ?thesis
    by (simp add: two_models_loaded_props booster_a_def booster_b_def)
qed

text \<open>
  C1 as stated fails: for two boosters with log-space outputs 0 and 2 \<^verbatim>\<open>predict\<close> returns
  \<open>(exp 2 - 1) / 2\<close>, the exponential of the mean minus one is \<open>exp 1 - 1\<close>.
\<close>

theorem lightgbm_predict_exp_of_mean_counterexample:
  "models two_models_loaded = [booster_a, booster_b] \<and>
   booster_a (feature_vector demo_config demo_request) = 0 \<and>
   booster_b (feature_vector demo_config demo_request) = 2 \<and>
   fst (lightgbm_predict two_model_files demo_request two_models_loaded) = Inr ((exp 2 - 1) / 2) \<and>
   exp_of_mean [0, 2] = exp 1 - 1 \<and>
   fst (lightgbm_predict two_model_files demo_request two_models_loaded) \<noteq>
     Inr (exp_of_mean [booster_a (feature_vector demo_config demo_request),
                       booster_b (feature_vector demo_config demo_request)])"
proof -
  have a: "booster_a (feature_vector demo_config demo_request) = 0"
    "booster_b (feature_vector demo_config demo_request) = 2"
    by (simp_all add: booster_a_def booster_b_def)
  have b: "fst (lightgbm_predict two_model_files demo_request two_models_loaded)
           = Inr ((exp 2 - 1) / 2)"
    by (simp add: lightgbm_predict_loaded [OF two_models_loaded_props(1,2,4)]
        two_models_loaded_props booster_a_def booster_b_def)
  have c: "exp_of_mean [0, 2] = exp 1 - 1" by (simp add: exp_of_mean_def)
  from a b c exp_gap two_models_loaded_props(3) show ?thesis by simp
qed



















end
